theory Spec2Isabelle
  imports Main "HOL-Library.Word"
begin

unbundle bit_operations_syntax

section \<open>The FAN53555 / RK860 buck regulator driver\<close>

text \<open>
  A shallow embedding of the regulator driver (the C file of the repository that defines
  \<^verbatim>\<open>ic_types\<close>, \<^verbatim>\<open>fan53555_regulator_of_to_plat\<close>,
  \<^verbatim>\<open>fan53555_regulator_get_value\<close>, \<^verbatim>\<open>fan53555_regulator_set_value\<close>,
  \<^verbatim>\<open>fan53555_voltages_setup\<close>, \<^verbatim>\<open>fan53555_rk860_calibration\<close> and
  \<^verbatim>\<open>fan53555_probe\<close>).

  C types: \<^verbatim>\<open>unsigned int\<close> and \<^verbatim>\<open>u32\<close> are \<open>32 word\<close>, \<^verbatim>\<open>u8\<close> and
  \<^verbatim>\<open>uint8_t\<close> are \<open>8 word\<close>. A C \<^verbatim>\<open>int\<close> that carries a return code or a
  voltage is an \<open>int\<close>; where it enters unsigned arithmetic it is converted with
  \<open>word_of_int\<close> (reduction modulo \<open>2 ^ 32\<close>), and an unsigned result stored in an
  \<^verbatim>\<open>int\<close> is read back with \<open>sint\<close>.
\<close>

type_synonym u8 = "8 word"
type_synonym u32 = "32 word"

subsection \<open>Constants of headers that the driver includes\<close>

text \<open>\<^verbatim>\<open>errno.h\<close>: the Linux values.\<close>

definition EINVAL :: int where
  "EINVAL = 22"

definition ENODATA :: int where
  "ENODATA = 61"

definition EREMOTEIO :: int where
  "EREMOTEIO = 121"

text \<open>
  Modelled from the spec: the vendor enumeration of \<^verbatim>\<open>power/fan53555.h\<close>, which is not
  among the source files. The spec has two enumerants (VendorA, VendorB), the second being
  the one whose chips are calibrated; the driver names them
  \<^verbatim>\<open>FAN53555_VENDOR_FAIRCHILD\<close> and \<^verbatim>\<open>FAN53555_VENDOR_SILERGY\<close>.
\<close>

definition FAN53555_VENDOR_FAIRCHILD :: u32 where
  "FAN53555_VENDOR_FAIRCHILD = 0"

definition FAN53555_VENDOR_SILERGY :: u32 where
  "FAN53555_VENDOR_SILERGY = 1"

text \<open>
  Modelled from the spec: the macro \<^verbatim>\<open>GENMASK(h, l)\<close> of \<^verbatim>\<open>linux/bitops.h\<close>, which is
  not among the source files: the bits \<open>l\<close> to \<open>h\<close> set (the spec gives \<open>0x7F\<close> for the mask
  of the voltage field, bits 0 to 6).
\<close>

definition GENMASK :: "nat \<Rightarrow> nat \<Rightarrow> u32" where
  "GENMASK h l = push_bit l (- 1) AND drop_bit (31 - h) (- 1)"

text \<open>The register enumeration.\<close>

definition FAN53555_VSEL0 :: u32 where
  "FAN53555_VSEL0 = 0x00"

definition FAN53555_VSEL1 :: u32 where
  "FAN53555_VSEL1 = 0x01"

definition FAN53555_CONTROL :: u32 where
  "FAN53555_CONTROL = 0x02"

definition FAN53555_ID1 :: u32 where
  "FAN53555_ID1 = 0x03"

definition FAN53555_ID2 :: u32 where
  "FAN53555_ID2 = 0x04"

definition FAN53555_MONITOR :: u32 where
  "FAN53555_MONITOR = 0x05"

definition IS_RK860_0_ONLY :: int where
  "IS_RK860_0_ONLY = 1"

definition IS_RK860_1_ONLY :: int where
  "IS_RK860_1_ONLY = 2"

definition IS_RK860_0_1 :: int where
  "IS_RK860_0_1 = 3"

subsection \<open>Data\<close>

text \<open>One row of \<^verbatim>\<open>ic_types\<close> (the fields carry the prefix \<open>t_\<close>).\<close>

record ic_type =
  t_vendor :: u32
  t_die_id :: u8
  t_die_rev :: u8
  t_check_rev :: bool
  t_vsel_min :: u32
  t_vsel_step :: u32

definition mk_ic :: "u32 \<Rightarrow> u8 \<Rightarrow> u8 \<Rightarrow> bool \<Rightarrow> u32 \<Rightarrow> u32 \<Rightarrow> ic_type" where
  "mk_ic v i r c m s =
     \<lparr>t_vendor = v, t_die_id = i, t_die_rev = r, t_check_rev = c, t_vsel_min = m, t_vsel_step = s\<rparr>"

definition ic_types :: "ic_type list" where
  "ic_types =
    [mk_ic FAN53555_VENDOR_FAIRCHILD 0x0 0x3 True 600000 10000,
     mk_ic FAN53555_VENDOR_FAIRCHILD 0x0 0xf True 800000 10000,
     mk_ic FAN53555_VENDOR_FAIRCHILD 0x0 0xc True 600000 12500,
     mk_ic FAN53555_VENDOR_FAIRCHILD 0x1 0x3 True 600000 10000,
     mk_ic FAN53555_VENDOR_FAIRCHILD 0x3 0x3 True 600000 10000,
     mk_ic FAN53555_VENDOR_FAIRCHILD 0x4 0xf True 603000 12826,
     mk_ic FAN53555_VENDOR_FAIRCHILD 0x5 0x3 True 600000 10000,
     mk_ic FAN53555_VENDOR_FAIRCHILD 0x8 0x1 True 600000 10000,
     mk_ic FAN53555_VENDOR_FAIRCHILD 0x8 0xf True 600000 10000,
     mk_ic FAN53555_VENDOR_FAIRCHILD 0xc 0xf True 603000 12826,
     mk_ic FAN53555_VENDOR_SILERGY 0x8 0x0 False 712500 12500,
     mk_ic FAN53555_VENDOR_SILERGY 0x9 0x0 False 712500 12500]"

record fan53555_plat =
  vol_reg :: u32
  sleep_reg :: u32

record fan53555_priv =
  vendor :: u32
  die_id :: u32
  die_rev :: u32
  vsel_min :: u32
  vsel_step :: u32
  slew_rate :: u32
  sleep_vol_cache :: u32
  rk860_type :: int

subsection \<open>The register transport and what the driver does on it\<close>

text \<open>
  The four transport functions that the driver calls are not defined in the source files;
  they are parameters of the model, over any bus state \<open>'s\<close>:
  \<^item> \<^verbatim>\<open>pmic_reg_read(dev->parent, reg)\<close> returns the register's value, or a negative code;
  \<^item> \<^verbatim>\<open>pmic_reg_write(dev->parent, reg, byte)\<close> returns a code;
  \<^item> \<^verbatim>\<open>dm_i2c_addr_read(dev, addr, off, &buf, 1)\<close> returns a code and leaves a byte in
    the buffer: the second component is the buffer's content after the call, whatever the
    code is (every buffer of the driver is the target of at most one read before it is
    used, so an indeterminate content after a failed read is covered);
  \<^item> \<^verbatim>\<open>dm_i2c_addr_write(dev, addr, off, &buf, 1)\<close> returns a code.
\<close>

record 's transport =
  pmic_reg_read :: "'s \<Rightarrow> u32 \<Rightarrow> int \<times> 's"
  pmic_reg_write :: "'s \<Rightarrow> u32 \<Rightarrow> u8 \<Rightarrow> int \<times> 's"
  dm_i2c_addr_read :: "'s \<Rightarrow> nat \<Rightarrow> nat \<Rightarrow> int \<times> u8 \<times> 's"
  dm_i2c_addr_write :: "'s \<Rightarrow> nat \<Rightarrow> nat \<Rightarrow> u8 \<Rightarrow> int \<times> 's"

text \<open>Every transport call that the driver issues is recorded, in the order of the calls.\<close>

datatype bus_op =
  PmicRead u32
  | PmicWrite u32 u8
  | I2cRead nat nat
  | I2cWrite nat nat u8

text \<open>The messages of \<^verbatim>\<open>printf\<close> and \<^verbatim>\<open>pr_err\<close>, in the order of the source.\<close>

datatype msg =
  InvalidVselId u32
  | NotSupported u32 u32
  | NoRk860_0
  | HaveRk860_0 u8
  | NotRk860_0 u8
  | NoRk860_1
  | HaveRk860_1 u8
  | NotRk860_1 u8
  | WarnCannotSupport
  | Rk860Type int
  | RegDump int int int int int
  | Rk860_0_Okay
  | Rk860_1_Okay
  | Rk860_0_1_Okay
  | DoNothing
  | OptionDetected u32 u32

record 's env =
  bus :: 's
  trace :: "bus_op list"
  console :: "msg list"

definition printf :: "msg \<Rightarrow> 's env \<Rightarrow> 's env" where
  "printf m e = e\<lparr>console := console e @ [m]\<rparr>"

definition reg_read :: "'s transport \<Rightarrow> u32 \<Rightarrow> 's env \<Rightarrow> int \<times> 's env" where
  "reg_read T reg e =
     (let (ret, s) = pmic_reg_read T (bus e) reg
      in (ret, e\<lparr>bus := s, trace := trace e @ [PmicRead reg]\<rparr>))"

definition reg_write :: "'s transport \<Rightarrow> u32 \<Rightarrow> u8 \<Rightarrow> 's env \<Rightarrow> int \<times> 's env" where
  "reg_write T reg byte e =
     (let (ret, s) = pmic_reg_write T (bus e) reg byte
      in (ret, e\<lparr>bus := s, trace := trace e @ [PmicWrite reg byte]\<rparr>))"

definition addr_read :: "'s transport \<Rightarrow> nat \<Rightarrow> nat \<Rightarrow> 's env \<Rightarrow> int \<times> u8 \<times> 's env" where
  "addr_read T addr off e =
     (let (ret, buf, s) = dm_i2c_addr_read T (bus e) addr off
      in (ret, buf, e\<lparr>bus := s, trace := trace e @ [I2cRead addr off]\<rparr>))"

definition addr_write :: "'s transport \<Rightarrow> nat \<Rightarrow> nat \<Rightarrow> u8 \<Rightarrow> 's env \<Rightarrow> int \<times> 's env" where
  "addr_write T addr off buf e =
     (let (ret, s) = dm_i2c_addr_write T (bus e) addr off buf
      in (ret, e\<lparr>bus := s, trace := trace e @ [I2cWrite addr off buf]\<rparr>))"

text \<open>
  Modelled from the spec: \<^verbatim>\<open>pmic_clrsetbits\<close> of the PMIC uclass, which is not among the
  source files. The spec: a read-modify-write in which the mask is cleared and the new
  value is OR'd in, errors of the transport passed through unchanged. The byte written is
  the low byte of the result.
\<close>

definition pmic_clrsetbits :: "'s transport \<Rightarrow> u32 \<Rightarrow> u32 \<Rightarrow> u32 \<Rightarrow> 's env \<Rightarrow> int \<times> 's env" where
  "pmic_clrsetbits T reg clr setb e =
     (let (ret, e1) = reg_read T reg e
      in if ret < 0 then (ret, e1)
         else reg_write T reg (ucast ((word_of_int ret AND NOT clr) OR setb)) e1)"

subsection \<open>Configuration: \<^verbatim>\<open>fan53555_regulator_of_to_plat\<close>\<close>

text \<open>
  Modelled from the spec: \<^verbatim>\<open>dev_read_u32_default\<close> of the device-tree access layer, which
  is not among the source files: the value of the property when the node has it, the
  default otherwise. The node is a map from property names to values.
\<close>

definition dev_read_u32_default :: "(string \<rightharpoonup> u32) \<Rightarrow> string \<Rightarrow> u32 \<Rightarrow> u32" where
  "dev_read_u32_default node name def = (case node name of None \<Rightarrow> def | Some v \<Rightarrow> v)"

datatype regulator_type = REGULATOR_TYPE_LDO | REGULATOR_TYPE_BUCK | REGULATOR_TYPE_OTHER

text \<open>
  The function returns its code, the platform data, the regulator type of the uclass
  platform data and the console.
\<close>

definition fan53555_regulator_of_to_plat ::
  "(string \<rightharpoonup> u32) \<Rightarrow> fan53555_plat \<Rightarrow> regulator_type \<Rightarrow> msg list
     \<Rightarrow> int \<times> fan53555_plat \<times> regulator_type \<times> msg list" where
  "fan53555_regulator_of_to_plat node plat uc_type out =
     (let uc_type = REGULATOR_TYPE_BUCK;
          sleep_vsel = dev_read_u32_default node ''fcs,suspend-voltage-selector'' FAN53555_VSEL1
      in if sleep_vsel = FAN53555_VSEL0
         then (0, plat\<lparr>sleep_reg := FAN53555_VSEL0, vol_reg := FAN53555_VSEL1\<rparr>, uc_type, out)
         else if sleep_vsel = FAN53555_VSEL1
         then (0, plat\<lparr>sleep_reg := FAN53555_VSEL1, vol_reg := FAN53555_VSEL0\<rparr>, uc_type, out)
         else (- EINVAL, plat, uc_type, out @ [InvalidVselId sleep_vsel]))"

subsection \<open>The voltage codec: \<^verbatim>\<open>get_value\<close> and \<^verbatim>\<open>set_value\<close>\<close>

definition fan53555_regulator_get_value ::
  "'s transport \<Rightarrow> fan53555_plat \<Rightarrow> fan53555_priv \<Rightarrow> 's env \<Rightarrow> int \<times> 's env" where
  "fan53555_regulator_get_value T pdata priv e =
     (let (reg, e1) = reg_read T (vol_reg pdata) e
      in if reg < 0 then (reg, e1)
         else (sint (vsel_min priv + word_of_int (reg AND 0x3f) * vsel_step priv), e1))"

text \<open>
  The value of the local \<^verbatim>\<open>u8 vol\<close>: \<^verbatim>\<open>uV\<close> is converted to \<^verbatim>\<open>unsigned int\<close>, the
  subtraction wraps, the division is unsigned, and the quotient is cut to its low byte.
  A division by zero is undefined in C: \<open>None\<close>.
\<close>

definition set_value_vol :: "fan53555_priv \<Rightarrow> int \<Rightarrow> u8 option" where
  "set_value_vol priv uV =
     (if vsel_step priv = 0 then None
      else Some (ucast ((word_of_int uV - vsel_min priv) div vsel_step priv)))"

definition fan53555_regulator_set_value ::
  "'s transport \<Rightarrow> fan53555_plat \<Rightarrow> fan53555_priv \<Rightarrow> int \<Rightarrow> 's env \<Rightarrow> (int \<times> 's env) option" where
  "fan53555_regulator_set_value T pdata priv uV e =
     (case set_value_vol priv uV of
        None \<Rightarrow> None
      | Some vol \<Rightarrow> Some (pmic_clrsetbits T (vol_reg pdata) (GENMASK 6 0) (ucast vol) e))"

subsection \<open>The variant table: \<^verbatim>\<open>fan53555_voltages_setup\<close>\<close>

text \<open>The loop over the table, each \<^verbatim>\<open>continue\<close> a recursive call on the rest.\<close>

fun voltages_scan :: "ic_type list \<Rightarrow> fan53555_priv \<Rightarrow> msg list \<Rightarrow> int \<times> fan53555_priv \<times> msg list" where
  "voltages_scan [] priv out = (- EINVAL, priv, out @ [NotSupported (die_id priv) (die_rev priv)])"
| "voltages_scan (t # ts) priv out =
     (if t_vendor t \<noteq> vendor priv then voltages_scan ts priv out
      else if ucast (t_die_id t) \<noteq> die_id priv then voltages_scan ts priv out
      else if t_check_rev t \<and> ucast (t_die_rev t) \<noteq> die_rev priv then voltages_scan ts priv out
      else (0, priv\<lparr>vsel_min := t_vsel_min t, vsel_step := t_vsel_step t\<rparr>, out))"

definition fan53555_voltages_setup :: "fan53555_priv \<Rightarrow> msg list \<Rightarrow> int \<times> fan53555_priv \<times> msg list" where
  "fan53555_voltages_setup priv out = voltages_scan ic_types priv out"

subsection \<open>Calibration: \<^verbatim>\<open>fan53555_rk860_calibration\<close>\<close>

text \<open>
  The locals of the function that outlive the two identification reads, together with
  \<^verbatim>\<open>di->rk860_type\<close>.
\<close>

record calib_vars =
  cv_type :: int
  version0 :: u8
  version1 :: u8
  flag :: u8

definition calib_init :: calib_vars where
  "calib_init = \<lparr>cv_type = 0, version0 = 0x04, version1 = 0x04, flag = 0\<rparr>"

text \<open>The read of \<open>0x40\<close>, offset \<open>0x0E\<close>, and the branch on it.\<close>

definition rk860_probe_0 :: "'s transport \<Rightarrow> calib_vars \<Rightarrow> 's env \<Rightarrow> calib_vars \<times> 's env" where
  "rk860_probe_0 T cv e =
     (let (ret, val, e1) = addr_read T 0x40 0x0E e
      in if ret < 0 then (cv, printf NoRk860_0 e1)
         else if val = 0x00 \<or> val = 0x04
         then (cv\<lparr>cv_type := IS_RK860_0_ONLY, version0 := val AND 0x04\<rparr>,
               printf (HaveRk860_0 val) e1)
         else (cv\<lparr>flag := 1\<rparr>, printf (NotRk860_0 val) e1))"

text \<open>The read of \<open>0x41\<close>, offset \<open>0x0E\<close>, and the branch on it.\<close>

definition rk860_probe_1 :: "'s transport \<Rightarrow> calib_vars \<Rightarrow> 's env \<Rightarrow> calib_vars \<times> 's env" where
  "rk860_probe_1 T cv e =
     (let (ret, val, e1) = addr_read T 0x41 0x0E e
      in if ret < 0 then (cv, printf NoRk860_1 e1)
         else if val = 0x44 \<or> val = 0x40
         then (cv\<lparr>cv_type := (if cv_type cv \<noteq> 0 then IS_RK860_0_1 else IS_RK860_1_ONLY),
                   version1 := val AND 0x04\<rparr>,
               printf (HaveRk860_1 val) e1)
         else (cv\<lparr>flag := 2\<rparr>, printf (NotRk860_1 val) e1))"

definition rk860_detect :: "'s transport \<Rightarrow> 's env \<Rightarrow> calib_vars \<times> 's env" where
  "rk860_detect T e =
     (let (cv0, e0) = rk860_probe_0 T calib_init e
      in rk860_probe_1 T cv0 e0)"

text \<open>Three reads into a buffer and three writes from it; the codes are not looked at.\<close>

definition read_trim :: "'s transport \<Rightarrow> nat \<Rightarrow> 's env \<Rightarrow> (u8 \<times> u8 \<times> u8) \<times> 's env" where
  "read_trim T addr e =
     (let (r0, b0, e0) = addr_read T addr 0x0B e;
          (r1, b1, e1) = addr_read T addr 0x0C e0;
          (r2, b2, e2) = addr_read T addr 0x0D e1
      in ((b0, b1, b2), e2))"

definition write_trim :: "'s transport \<Rightarrow> nat \<Rightarrow> u8 \<times> u8 \<times> u8 \<Rightarrow> 's env \<Rightarrow> 's env" where
  "write_trim T addr buffer e =
     (let (b0, b1, b2) = buffer;
          (r0, e0) = addr_write T addr 0x0B b0 e;
          (r1, e1) = addr_write T addr 0x0C b1 e0;
          (r2, e2) = addr_write T addr 0x0D b2 e1
      in e2)"

text \<open>Reads of registers of the parent, one after the other, each kept with its value.\<close>

fun read_regs :: "'s transport \<Rightarrow> u32 list \<Rightarrow> 's env \<Rightarrow> (u32 \<times> int) list \<times> 's env" where
  "read_regs T [] e = ([], e)"
| "read_regs T (reg # regs) e =
     (let (v, e1) = reg_read T reg e;
          (vs, e2) = read_regs T regs e1
      in ((reg, v) # vs, e2))"

definition reg_val :: "(u32 \<times> int) list \<Rightarrow> u32 \<Rightarrow> int" where
  "reg_val vs reg = (case map_of vs reg of None \<Rightarrow> 0 | Some v \<Rightarrow> v)"

text \<open>
  The \<^verbatim>\<open>printf\<close> of the registers \<open>0x0A\<close> to \<open>0x0E\<close> of the parent: its five arguments are
  calls of \<^verbatim>\<open>pmic_reg_read\<close>. C leaves the order in which the arguments of one call are
  evaluated open, so the order is a parameter \<open>ord\<close> of the model: the five registers are
  read by increasing \<open>ord\<close> (from left to right where \<open>ord\<close> is equal), and every order of
  the five reads is the one of some \<open>ord\<close>. Every register is among the five that were
  read, so \<open>reg_val\<close> finds its value.
\<close>

definition dump_order :: "(u32 \<Rightarrow> nat) \<Rightarrow> u32 list" where
  "dump_order ord = sort_key ord [0x0A, 0x0B, 0x0C, 0x0D, 0x0E]"

definition dump_regs :: "'s transport \<Rightarrow> (u32 \<Rightarrow> nat) \<Rightarrow> 's env \<Rightarrow> 's env" where
  "dump_regs T ord e =
     (let (vs, e1) = read_regs T (dump_order ord) e
      in printf (RegDump (reg_val vs 0x0A) (reg_val vs 0x0B) (reg_val vs 0x0C)
                         (reg_val vs 0x0D) (reg_val vs 0x0E)) e1)"

text \<open>The body of \<^verbatim>\<open>case IS_RK860_0_ONLY\<close> under \<^verbatim>\<open>version0 == 0\<close>.\<close>

definition calib_0_only :: "'s transport \<Rightarrow> (u32 \<Rightarrow> nat) \<Rightarrow> 's env \<Rightarrow> 's env" where
  "calib_0_only T ord e =
     (let (buffer0, e1) = read_trim T 0x40 e;
          (r, e2) = addr_write T 0x40 0x0A 0x5a e1;
          (r, e3) = addr_write T 0x40 0x0E 0x04 e2;
          e4 = write_trim T 0x40 buffer0 e3
      in printf Rk860_0_Okay (dump_regs T ord e4))"

text \<open>The body of \<^verbatim>\<open>case IS_RK860_1_ONLY\<close> under \<^verbatim>\<open>version1 == 0\<close>.\<close>

definition calib_1_only :: "'s transport \<Rightarrow> (u32 \<Rightarrow> nat) \<Rightarrow> 's env \<Rightarrow> 's env" where
  "calib_1_only T ord e =
     (let (buffer1, e1) = read_trim T 0x41 e;
          (r, e2) = addr_write T 0x41 0x0A 0x5a e1;
          (r, e3) = addr_write T 0x40 0x0E 0x44 e2;
          e4 = write_trim T 0x41 buffer1 e3
      in printf Rk860_1_Okay (dump_regs T ord e4))"

text \<open>The body of \<^verbatim>\<open>case IS_RK860_0_1\<close> under \<^verbatim>\<open>version0 == 0 || version1 == 0\<close>.\<close>

definition calib_0_1 :: "'s transport \<Rightarrow> 's env \<Rightarrow> 's env" where
  "calib_0_1 T e =
     (let (buffer0, e1) = read_trim T 0x40 e;
          (buffer1, e2) = read_trim T 0x41 e1;
          (r, e3) = addr_write T 0x40 0x0A 0x5a e2;
          (r, e4) = addr_write T 0x40 0x0E 0x84 e3;
          (r, e5) = addr_write T 0x41 0x0A 0x5a e4;
          (r, e6) = addr_write T 0x40 0x0E 0x44 e5;
          e7 = write_trim T 0x41 buffer1 e6;
          (r, e8) = addr_write T 0x42 0x0E 0x04 e7;
          e9 = write_trim T 0x40 buffer0 e8
      in printf Rk860_0_1_Okay e9)"

text \<open>The \<^verbatim>\<open>switch\<close> on \<^verbatim>\<open>di->rk860_type\<close>.\<close>

definition calib_dispatch ::
  "'s transport \<Rightarrow> (u32 \<Rightarrow> nat) \<Rightarrow> calib_vars \<Rightarrow> 's env \<Rightarrow> 's env" where
  "calib_dispatch T ord cv e =
     (if cv_type cv = IS_RK860_0_ONLY
      then (if version0 cv = 0 then calib_0_only T ord e else e)
      else if cv_type cv = IS_RK860_1_ONLY
      then (if version1 cv = 0 then calib_1_only T ord e else e)
      else if cv_type cv = IS_RK860_0_1
      then (if version0 cv = 0 \<or> version1 cv = 0 then calib_0_1 T e else e)
      else printf DoNothing e)"

definition fan53555_rk860_calibration ::
  "'s transport \<Rightarrow> (u32 \<Rightarrow> nat) \<Rightarrow> fan53555_priv \<Rightarrow> 's env \<Rightarrow> fan53555_priv \<times> 's env" where
  "fan53555_rk860_calibration T ord di e =
     (let (cv, e1) = rk860_detect T e;
          di1 = di\<lparr>rk860_type := cv_type cv\<rparr>
      in if flag cv = 1 \<and> cv_type cv = IS_RK860_1_ONLY \<and> version1 cv = 0
         then (di1, printf WarnCannotSupport e1)
         else (di1, calib_dispatch T ord cv (printf (Rk860Type (cv_type cv)) e1)))"

subsection \<open>\<^verbatim>\<open>fan53555_probe\<close>\<close>

definition fan53555_probe ::
  "'s transport \<Rightarrow> (u32 \<Rightarrow> nat) \<Rightarrow> u32 \<Rightarrow> fan53555_priv \<Rightarrow> 's env
     \<Rightarrow> int \<times> fan53555_priv \<times> 's env" where
  "fan53555_probe T ord driver_data priv e =
     (let (ID1, e1) = reg_read T FAN53555_ID1 e
      in if ID1 < 0 then (ID1, priv, e1)
         else
           let (ID2, e2) = reg_read T FAN53555_ID2 e1
           in if ID2 < 0 then (ID2, priv, e2)
              else
                let priv1 = priv\<lparr>vendor := driver_data,
                                 die_id := word_of_int ID1 AND GENMASK 3 0,
                                 die_rev := word_of_int ID2 AND GENMASK 3 0\<rparr>;
                    (ret, priv2, out) = fan53555_voltages_setup priv1 (console e2)
                in if ret < 0 then (- ENODATA, priv2, e2\<lparr>console := out\<rparr>)
                   else
                     let e3 = printf (OptionDetected (die_id priv2) (die_rev priv2)) (e2\<lparr>console := out\<rparr>)
                     in if vendor priv2 = FAN53555_VENDOR_SILERGY
                        then (let (priv3, e4) = fan53555_rk860_calibration T ord priv2 e3
                              in (0, priv3, e4))
                        else (0, priv2, e3))"

subsection \<open>A register file as transport\<close>

text \<open>
  A transport for running the driver: the bus is an association list from a chip address
  and an offset to the byte stored there. A read or a write of a pair that is not in the
  list fails with \<open>- EREMOTEIO\<close>, a read leaving \<open>0\<close> in the buffer; a write of a pair that
  is in the list stores the byte. The parent of the regulator is the chip at \<open>pa\<close>.
\<close>

type_synonym regfile = "((nat \<times> nat) \<times> u8) list"

definition rf_read :: "regfile \<Rightarrow> nat \<Rightarrow> nat \<Rightarrow> int \<times> u8 \<times> regfile" where
  "rf_read s addr off =
     (case map_of s (addr, off) of None \<Rightarrow> (- EREMOTEIO, 0, s) | Some v \<Rightarrow> (0, v, s))"

definition rf_write :: "regfile \<Rightarrow> nat \<Rightarrow> nat \<Rightarrow> u8 \<Rightarrow> int \<times> regfile" where
  "rf_write s addr off v =
     (case map_of s (addr, off) of
        None \<Rightarrow> (- EREMOTEIO, s)
      | Some w \<Rightarrow> (0, ((addr, off), v) # s))"

definition regfile_transport :: "nat \<Rightarrow> regfile transport" where
  "regfile_transport pa =
     \<lparr>pmic_reg_read = (\<lambda>s reg. case rf_read s pa (unat reg) of (ret, v, s') \<Rightarrow>
                                  (if ret < 0 then ret else uint v, s')),
      pmic_reg_write = (\<lambda>s reg v. rf_write s pa (unat reg) v),
      dm_i2c_addr_read = rf_read,
      dm_i2c_addr_write = rf_write\<rparr>"

definition env0 :: "'s \<Rightarrow> 's env" where
  "env0 s = \<lparr>bus = s, trace = [], console = []\<rparr>"

definition priv0 :: fan53555_priv where
  "priv0 = \<lparr>vendor = 0, die_id = 0, die_rev = 0, vsel_min = 0, vsel_step = 0,
            slew_rate = 0, sleep_vol_cache = 0, rk860_type = 0\<rparr>"

subsection \<open>A projection of the trace and inputs for running the driver\<close>

text \<open>
  The trace without the calls of \<^verbatim>\<open>pmic_reg_read\<close>: every write, through either
  interface, and every addressed read stay.
\<close>

definition drop_pmic_reads :: "bus_op list \<Rightarrow> bus_op list" where
  "drop_pmic_reads ops = filter (\<lambda>op. case op of PmicRead reg \<Rightarrow> False | _ \<Rightarrow> True) ops"

text \<open>Two orders of evaluation: the arguments from left to right, and from right to left.\<close>

definition left_to_right :: "u32 \<Rightarrow> nat" where
  "left_to_right reg = unat reg"

definition right_to_left :: "u32 \<Rightarrow> nat" where
  "right_to_left reg = 0x0E - unat reg"

text \<open>
  Three buses: a legacy chip at \<open>0x41\<close> alone; a legacy chip at \<open>0x40\<close> with a chip at
  \<open>0x41\<close>; a chip of another family at \<open>0x40\<close> (identification \<open>0x10\<close>) with a legacy chip
  at \<open>0x41\<close>.
\<close>

definition rf_S :: regfile where
  "rf_S = [((0x41, 0x0E), 0x40), ((0x41, 0x0A), 0x00),
           ((0x41, 0x0B), 0x11), ((0x41, 0x0C), 0x22), ((0x41, 0x0D), 0x33)]"

definition rf_PS :: regfile where
  "rf_PS = [((0x40, 0x0E), 0x00), ((0x40, 0x0A), 0x00),
            ((0x40, 0x0B), 0xA1), ((0x40, 0x0C), 0xA2), ((0x40, 0x0D), 0xA3),
            ((0x41, 0x0E), 0x44), ((0x41, 0x0A), 0x00),
            ((0x41, 0x0B), 0x11), ((0x41, 0x0C), 0x22), ((0x41, 0x0D), 0x33)]"

definition rf_guard :: regfile where
  "rf_guard = [((0x40, 0x0E), 0x10), ((0x41, 0x0E), 0x40), ((0x41, 0x0A), 0x00),
               ((0x41, 0x0B), 0x11), ((0x41, 0x0C), 0x22), ((0x41, 0x0D), 0x33)]"

subsection \<open>Predicates of the specification and further inputs\<close>

text \<open>
  The specification's matching rule for one row of the table: vendor and die identifier
  always, the die revision only when the row's revision is significant.
\<close>

definition ic_match :: "fan53555_priv \<Rightarrow> ic_type \<Rightarrow> bool" where
  "ic_match priv t \<longleftrightarrow>
     t_vendor t = vendor priv \<and> ucast (t_die_id t) = die_id priv
     \<and> (t_check_rev t \<longrightarrow> ucast (t_die_rev t) = die_rev priv)"

text \<open>The curve of a row, copied into the private data.\<close>

definition ic_curve :: "ic_type \<Rightarrow> fan53555_priv \<Rightarrow> fan53555_priv" where
  "ic_curve t priv = priv\<lparr>vsel_min := t_vsel_min t, vsel_step := t_vsel_step t\<rparr>"

text \<open>Two rows that some identification could match at the same time.\<close>

definition same_key :: "ic_type \<Rightarrow> ic_type \<Rightarrow> bool" where
  "same_key t t' \<longleftrightarrow>
     t_vendor t = t_vendor t' \<and> t_die_id t = t_die_id t'
     \<and> (t_check_rev t \<and> t_check_rev t' \<longrightarrow> t_die_rev t = t_die_rev t')"

text \<open>
  The specification's \<open>encode\<close>: \<open>(microvolts - floor) / step\<close> on the integers, the
  quotient truncated toward zero.
\<close>

definition encode_spec :: "int \<Rightarrow> int \<Rightarrow> int \<Rightarrow> int" where
  "encode_spec floor step microvolts =
     sgn (microvolts - floor) * sgn step * (\<bar>microvolts - floor\<bar> div \<bar>step\<bar>)"

text \<open>The specification's acceptance of an identification read at \<open>0x40\<close> and at \<open>0x41\<close>.\<close>

definition genuine_0 :: "int \<Rightarrow> u8 \<Rightarrow> bool" where
  "genuine_0 ret val \<longleftrightarrow> 0 \<le> ret \<and> (val = 0x00 \<or> val = 0x04)"

definition genuine_1 :: "int \<Rightarrow> u8 \<Rightarrow> bool" where
  "genuine_1 ret val \<longleftrightarrow> 0 \<le> ret \<and> (val = 0x44 \<or> val = 0x40)"

text \<open>
  The curve of floor 600000 and step 10000, a platform whose active register is
  \<^verbatim>\<open>VSEL0\<close>, and a bus with the regulator at \<open>0x1c\<close> whose \<^verbatim>\<open>VSEL0\<close> holds \<open>v\<close>.
\<close>

definition priv_600 :: fan53555_priv where
  "priv_600 = priv0\<lparr>vsel_min := 600000, vsel_step := 10000\<rparr>"

definition plat_0 :: fan53555_plat where
  "plat_0 = \<lparr>vol_reg = FAN53555_VSEL0, sleep_reg = FAN53555_VSEL1\<rparr>"

definition rf_vsel :: "u8 \<Rightarrow> regfile" where
  "rf_vsel v = [((0x1c, 0x00), v), ((0x1c, 0x01), 0x00)]"

text \<open>The name of the selector property, and a node that gives it the value 5.\<close>

definition selector :: string where
  "selector = ''fcs,suspend-voltage-selector''"

definition node_5 :: "string \<rightharpoonup> u32" where
  "node_5 = [selector \<mapsto> 5]"

text \<open>A bus with the regulator at \<open>0x1c\<close>: identification \<open>ID1 = 0x88\<close>, \<open>ID2 = 0x01\<close>.\<close>

definition rf_id :: regfile where
  "rf_id = [((0x1c, 0x03), 0x88), ((0x1c, 0x04), 0x01)]"

section \<open>Properties\<close>

subsection \<open>What each step does to the trace and the console\<close>

lemma drop_pmic_reads_append:
  "drop_pmic_reads (xs @ ys) = drop_pmic_reads xs @ drop_pmic_reads ys"
  by (simp add: drop_pmic_reads_def)

lemma drop_pmic_reads_reads: "drop_pmic_reads (map PmicRead regs) = []"
  by (induction regs) (simp_all add: drop_pmic_reads_def)

lemma dump_order_perm:
  "set (dump_order ord) = {0x0A, 0x0B, 0x0C, 0x0D, 0x0E} \<and> distinct (dump_order ord)
   \<and> length (dump_order ord) = 5"
proof -
  let ?regs = "[0x0A, 0x0B, 0x0C, 0x0D, 0x0E] :: u32 list"
  have "set ?regs = {0x0A, 0x0B, 0x0C, 0x0D, 0x0E}" and "distinct ?regs" and "length ?regs = 5"
    by simp_all
  then show ?thesis
    unfolding dump_order_def by (simp only: set_sort distinct_sort length_sort simp_thms)
qed

lemma printf_fields:
  "trace (printf m e) = trace e" "bus (printf m e) = bus e" "console (printf m e) = console e @ [m]"
  by (simp_all add: printf_def)

lemma addr_read_fields:
  assumes "addr_read T a off e = (r, b, e')"
  shows "trace e' = trace e @ [I2cRead a off]" and "console e' = console e"
    and "dm_i2c_addr_read T (bus e) a off = (r, b, bus e')"
  using assms by (auto simp: addr_read_def split: prod.splits)

lemma addr_write_fields:
  assumes "addr_write T a off v e = (r, e')"
  shows "trace e' = trace e @ [I2cWrite a off v]" and "console e' = console e"
    and "dm_i2c_addr_write T (bus e) a off v = (r, bus e')"
  using assms by (auto simp: addr_write_def split: prod.splits)

lemma reg_read_fields:
  assumes "reg_read T reg e = (r, e')"
  shows "trace e' = trace e @ [PmicRead reg]" and "console e' = console e"
    and "pmic_reg_read T (bus e) reg = (r, bus e')"
  using assms by (auto simp: reg_read_def split: prod.splits)

lemma reg_write_fields:
  assumes "reg_write T reg v e = (r, e')"
  shows "trace e' = trace e @ [PmicWrite reg v]" and "console e' = console e"
    and "pmic_reg_write T (bus e) reg v = (r, bus e')"
  using assms by (auto simp: reg_write_def split: prod.splits)

lemma addr_read_env:
  "addr_read T a off e = (r, b, e') \<Longrightarrow> trace e' = trace e @ [I2cRead a off] \<and> console e' = console e"
  by (auto simp: addr_read_def split: prod.splits)

lemma addr_write_env:
  "addr_write T a off v e = (r, e') \<Longrightarrow> trace e' = trace e @ [I2cWrite a off v] \<and> console e' = console e"
  by (auto simp: addr_write_def split: prod.splits)

lemma read_trim_trace:
  assumes "read_trim T a e = (buf, e')"
  shows "trace e' = trace e @ [I2cRead a 0x0B, I2cRead a 0x0C, I2cRead a 0x0D]"
    and "console e' = console e"
  using assms
  by (auto simp: read_trim_def split: prod.splits dest!: addr_read_env)

lemma write_trim_trace:
  "trace (write_trim T a (b0, b1, b2) e) =
     trace e @ [I2cWrite a 0x0B b0, I2cWrite a 0x0C b1, I2cWrite a 0x0D b2]"
  "console (write_trim T a (b0, b1, b2) e) = console e"
  by (auto simp: write_trim_def split: prod.splits dest!: addr_write_env)

lemma read_regs_env:
  "read_regs T regs e = (vs, e') \<Longrightarrow>
     trace e' = trace e @ map PmicRead regs \<and> console e' = console e"
proof (induction regs arbitrary: e vs e')
  case Nil
  then show ?case
    by simp
next
  case (Cons reg regs)
  obtain v e1 where r: "reg_read T reg e = (v, e1)"
    by (cases "reg_read T reg e")
  obtain ws e2 where rs: "read_regs T regs e1 = (ws, e2)"
    by (cases "read_regs T regs e1")
  have "e' = e2"
    using Cons.prems r rs by simp
  then show ?case
    using Cons.IH [OF rs] reg_read_fields(1,2) [OF r] by simp
qed

lemma dump_regs_trace:
  "trace (dump_regs T ord e) = trace e @ map PmicRead (dump_order ord)"
  by (auto simp: dump_regs_def printf_fields split: prod.splits dest!: read_regs_env)

lemma probe_0_trace:
  assumes "rk860_probe_0 T cv e = (cv', e')"
  shows "trace e' = trace e @ [I2cRead 0x40 0x0E]"
  using assms
  by (auto simp: rk860_probe_0_def printf_fields split: prod.splits if_splits dest!: addr_read_fields(1))

lemma probe_1_trace:
  assumes "rk860_probe_1 T cv e = (cv', e')"
  shows "trace e' = trace e @ [I2cRead 0x41 0x0E]"
  using assms
  by (auto simp: rk860_probe_1_def printf_fields split: prod.splits if_splits dest!: addr_read_fields(1))

lemma detect_trace:
  assumes "rk860_detect T e = (cv, e1)"
  shows "trace e1 = trace e @ [I2cRead 0x40 0x0E, I2cRead 0x41 0x0E]"
  using assms
  by (auto simp: rk860_detect_def split: prod.splits dest!: probe_0_trace probe_1_trace)

lemma calib_1_only_trace:
  assumes "read_trim T 0x41 e = ((b0, b1, b2), e')"
  shows "trace (calib_1_only T ord e) =
     trace e @ [I2cRead 0x41 0x0B, I2cRead 0x41 0x0C, I2cRead 0x41 0x0D,
                I2cWrite 0x41 0x0A 0x5a, I2cWrite 0x40 0x0E 0x44,
                I2cWrite 0x41 0x0B b0, I2cWrite 0x41 0x0C b1, I2cWrite 0x41 0x0D b2]
             @ map PmicRead (dump_order ord)"
  using assms read_trim_trace(1)[OF assms]
  by (auto simp: calib_1_only_def printf_fields dump_regs_trace write_trim_trace
      split: prod.splits dest!: addr_write_fields(1))

lemma calib_0_1_trace:
  assumes "read_trim T 0x40 e = ((a0, a1, a2), e1)"
    and "read_trim T 0x41 e1 = ((b0, b1, b2), e2)"
  shows "trace (calib_0_1 T e) =
     trace e @ [I2cRead 0x40 0x0B, I2cRead 0x40 0x0C, I2cRead 0x40 0x0D,
                I2cRead 0x41 0x0B, I2cRead 0x41 0x0C, I2cRead 0x41 0x0D,
                I2cWrite 0x40 0x0A 0x5a, I2cWrite 0x40 0x0E 0x84,
                I2cWrite 0x41 0x0A 0x5a, I2cWrite 0x40 0x0E 0x44,
                I2cWrite 0x41 0x0B b0, I2cWrite 0x41 0x0C b1, I2cWrite 0x41 0x0D b2,
                I2cWrite 0x42 0x0E 0x04,
                I2cWrite 0x40 0x0B a0, I2cWrite 0x40 0x0C a1, I2cWrite 0x40 0x0D a2]"
  using assms read_trim_trace(1)[OF assms(1)] read_trim_trace(1)[OF assms(2)]
  by (auto simp: calib_0_1_def printf_fields write_trim_trace
      split: prod.splits dest!: addr_write_fields(1))

text \<open>The definitions to unfold when the driver is run on a register file.\<close>

lemmas run_defs =
  fan53555_rk860_calibration_def rk860_detect_def rk860_probe_0_def rk860_probe_1_def
  calib_dispatch_def calib_0_only_def calib_1_only_def calib_0_1_def read_trim_def
  write_trim_def dump_regs_def dump_order_def reg_val_def left_to_right_def right_to_left_def
  addr_read_def addr_write_def reg_read_def reg_write_def
  printf_def regfile_transport_def rf_read_def rf_write_def env0_def priv0_def calib_init_def
  IS_RK860_0_ONLY_def IS_RK860_1_ONLY_def IS_RK860_0_1_def EREMOTEIO_def

subsection \<open>The calibration sequences\<close>

text \<open>
  Claim C1, as amended. In the legacy path of a chip at \<open>0x41\<close> alone (the type is
  \<^verbatim>\<open>IS_RK860_1_ONLY\<close>, \<^verbatim>\<open>version1\<close> is 0 and the guard does not fire), for any transport
  and any order of evaluation, the calibration issues exactly these operations in this
  order: the two identification reads, the reads of the three trim bytes of \<open>0x41\<close>
  (offsets \<open>0x0B\<close> to \<open>0x0D\<close>), the write of the key \<open>0x5A\<close> to \<open>0x41\<close>/\<open>0x0A\<close>, one write
  of the marker \<open>0x44\<close>, which goes to \<open>0x40\<close>/\<open>0x0E\<close>, and the writes of the three bytes
  read back to \<open>0x41\<close>/\<open>0x0B\<close> to \<open>0x0D\<close>. What follows is the five calls of
  \<^verbatim>\<open>pmic_reg_read\<close> of the register dump and nothing else: there is no write to
  \<open>0x41\<close>/\<open>0x0E\<close>, and no write through the parent.
\<close>

theorem calib_1_only_sequence:
  assumes "rk860_detect T e = (cv, e1)"
    and "cv_type cv = IS_RK860_1_ONLY" and "version1 cv = 0" and "flag cv \<noteq> 1"
    and "read_trim T 0x41 (printf (Rk860Type IS_RK860_1_ONLY) e1) = ((b0, b1, b2), e2)"
  shows "drop_pmic_reads (trace (snd (fan53555_rk860_calibration T ord di e))) =
     drop_pmic_reads (trace e) @
       [I2cRead 0x40 0x0E, I2cRead 0x41 0x0E,
        I2cRead 0x41 0x0B, I2cRead 0x41 0x0C, I2cRead 0x41 0x0D,
        I2cWrite 0x41 0x0A 0x5a, I2cWrite 0x40 0x0E 0x44,
        I2cWrite 0x41 0x0B b0, I2cWrite 0x41 0x0C b1, I2cWrite 0x41 0x0D b2]
   \<and> trace (snd (fan53555_rk860_calibration T ord di e)) =
     trace e @
       [I2cRead 0x40 0x0E, I2cRead 0x41 0x0E,
        I2cRead 0x41 0x0B, I2cRead 0x41 0x0C, I2cRead 0x41 0x0D,
        I2cWrite 0x41 0x0A 0x5a, I2cWrite 0x40 0x0E 0x44,
        I2cWrite 0x41 0x0B b0, I2cWrite 0x41 0x0C b1, I2cWrite 0x41 0x0D b2]
       @ map PmicRead (dump_order ord)"
proof -
  have "snd (fan53555_rk860_calibration T ord di e) =
          calib_1_only T ord (printf (Rk860Type IS_RK860_1_ONLY) e1)"
    using assms(1-4)
    by (simp add: fan53555_rk860_calibration_def calib_dispatch_def
        IS_RK860_0_ONLY_def IS_RK860_1_ONLY_def)
  then have full: "trace (snd (fan53555_rk860_calibration T ord di e)) =
     trace e @
       [I2cRead 0x40 0x0E, I2cRead 0x41 0x0E,
        I2cRead 0x41 0x0B, I2cRead 0x41 0x0C, I2cRead 0x41 0x0D,
        I2cWrite 0x41 0x0A 0x5a, I2cWrite 0x40 0x0E 0x44,
        I2cWrite 0x41 0x0B b0, I2cWrite 0x41 0x0C b1, I2cWrite 0x41 0x0D b2]
       @ map PmicRead (dump_order ord)"
    using calib_1_only_trace [OF assms(5)] detect_trace [OF assms(1)]
    by (simp add: printf_fields)
  have "drop_pmic_reads
       [I2cRead 0x40 0x0E, I2cRead 0x41 0x0E,
        I2cRead 0x41 0x0B, I2cRead 0x41 0x0C, I2cRead 0x41 0x0D,
        I2cWrite 0x41 0x0A 0x5a, I2cWrite 0x40 0x0E 0x44,
        I2cWrite 0x41 0x0B b0, I2cWrite 0x41 0x0C b1, I2cWrite 0x41 0x0D b2] =
       [I2cRead 0x40 0x0E, I2cRead 0x41 0x0E,
        I2cRead 0x41 0x0B, I2cRead 0x41 0x0C, I2cRead 0x41 0x0D,
        I2cWrite 0x41 0x0A 0x5a, I2cWrite 0x40 0x0E 0x44,
        I2cWrite 0x41 0x0B b0, I2cWrite 0x41 0x0C b1, I2cWrite 0x41 0x0D b2]"
    by (simp add: drop_pmic_reads_def)
  then show ?thesis
    using full by (simp only: drop_pmic_reads_append drop_pmic_reads_reads append_Nil2 simp_thms)
qed

theorem calib_1_only_sequence_witness:
  "cv_type (fst (rk860_detect (regfile_transport 0x41) (env0 rf_S))) = IS_RK860_1_ONLY
   \<and> version1 (fst (rk860_detect (regfile_transport 0x41) (env0 rf_S))) = 0
   \<and> flag (fst (rk860_detect (regfile_transport 0x41) (env0 rf_S))) \<noteq> 1
   \<and> drop_pmic_reads
       (trace (snd (fan53555_rk860_calibration (regfile_transport 0x41) right_to_left priv0 (env0 rf_S)))) =
       [I2cRead 0x40 0x0E, I2cRead 0x41 0x0E,
        I2cRead 0x41 0x0B, I2cRead 0x41 0x0C, I2cRead 0x41 0x0D,
        I2cWrite 0x41 0x0A 0x5a, I2cWrite 0x40 0x0E 0x44,
        I2cWrite 0x41 0x0B 0x11, I2cWrite 0x41 0x0C 0x22, I2cWrite 0x41 0x0D 0x33]"
proof -
  let ?T = "regfile_transport 0x41"
  let ?d = "rk860_detect ?T (env0 rf_S)"
  have h1: "?d = (fst ?d, snd ?d)" by simp
  have h2: "cv_type (fst ?d) = IS_RK860_1_ONLY" by (simp add: run_defs rf_S_def)
  have h3: "version1 (fst ?d) = 0" by (simp add: run_defs rf_S_def)
  have h4: "flag (fst ?d) \<noteq> 1" by (simp add: run_defs rf_S_def)
  have h5: "read_trim ?T 0x41 (printf (Rk860Type IS_RK860_1_ONLY) (snd ?d)) =
              ((0x11, 0x22, 0x33), printf (Rk860Type IS_RK860_1_ONLY) (snd ?d)
                 \<lparr>trace := [I2cRead 0x40 0x0E, I2cRead 0x41 0x0E,
                            I2cRead 0x41 0x0B, I2cRead 0x41 0x0C, I2cRead 0x41 0x0D]\<rparr>)"
    by (simp add: run_defs rf_S_def)
  have t0: "drop_pmic_reads (trace (env0 rf_S)) = []"
    by (simp add: env0_def drop_pmic_reads_def)
  show ?thesis
    using h2 h3 h4
      calib_1_only_sequence [OF h1 h2 h3 h4 h5, where di = priv0 and ord = right_to_left,
        THEN conjunct1]
    by (simp add: t0)
qed

text \<open>
  Claim C1 as stated has the marker written to \<open>0x41\<close>/\<open>0x0E\<close> and a second time to
  \<open>0x40\<close>/\<open>0x0E\<close>. On a bus with a legacy chip at \<open>0x41\<close> alone, which is also the parent of
  the regulator, the driver writes the marker once, to \<open>0x40\<close>/\<open>0x0E\<close>: no operation of the
  run writes \<open>0x44\<close> to \<open>0x41\<close>/\<open>0x0E\<close>, by its address or through the parent, and
  \<open>0x41\<close>/\<open>0x0E\<close> holds \<open>0x40\<close> at the end as it did at the start.
\<close>

theorem calib_1_only_no_marker_at_0x41:
  "rk860_type (fst (fan53555_rk860_calibration (regfile_transport 0x41) right_to_left priv0 (env0 rf_S))) =
     IS_RK860_1_ONLY
   \<and> drop_pmic_reads
       (trace (snd (fan53555_rk860_calibration (regfile_transport 0x41) right_to_left priv0 (env0 rf_S)))) =
       [I2cRead 0x40 0x0E, I2cRead 0x41 0x0E,
        I2cRead 0x41 0x0B, I2cRead 0x41 0x0C, I2cRead 0x41 0x0D,
        I2cWrite 0x41 0x0A 0x5a, I2cWrite 0x40 0x0E 0x44,
        I2cWrite 0x41 0x0B 0x11, I2cWrite 0x41 0x0C 0x22, I2cWrite 0x41 0x0D 0x33]
   \<and> I2cWrite 0x41 0x0E 0x44 \<notin>
       set (trace (snd (fan53555_rk860_calibration (regfile_transport 0x41) right_to_left priv0 (env0 rf_S))))
   \<and> PmicWrite 0x0E 0x44 \<notin>
       set (trace (snd (fan53555_rk860_calibration (regfile_transport 0x41) right_to_left priv0 (env0 rf_S))))
   \<and> map_of rf_S (0x41, 0x0E) = Some 0x40
   \<and> map_of (bus (snd (fan53555_rk860_calibration (regfile_transport 0x41) right_to_left priv0 (env0 rf_S))))
        (0x41, 0x0E) = Some 0x40"
  by (simp add: run_defs rf_S_def drop_pmic_reads_def)

text \<open>
  Claim C2, as amended. In the legacy path of two chips (the type is \<^verbatim>\<open>IS_RK860_0_1\<close> and
  \<^verbatim>\<open>version0\<close> or \<^verbatim>\<open>version1\<close> is 0) the calibration issues exactly these operations in
  this order: the two identification reads, the reads of the trim bytes of \<open>0x40\<close> and of
  \<open>0x41\<close>, then the writes: key \<open>0x5A\<close> to \<open>0x40\<close>/\<open>0x0A\<close>, marker \<open>0x84\<close> to
  \<open>0x40\<close>/\<open>0x0E\<close>, key \<open>0x5A\<close> to \<open>0x41\<close>/\<open>0x0A\<close>, marker \<open>0x44\<close> to \<open>0x40\<close>/\<open>0x0E\<close>
  (not to \<open>0x41\<close>/\<open>0x0E\<close>), the trim bytes of \<open>0x41\<close> to \<open>0x41\<close>/\<open>0x0B\<close> to \<open>0x0D\<close>,
  marker \<open>0x04\<close> to \<open>0x42\<close>/\<open>0x0E\<close>, the trim bytes of \<open>0x40\<close> to \<open>0x40\<close>/\<open>0x0B\<close> to
  \<open>0x0D\<close>.
\<close>

theorem calib_0_1_sequence:
  assumes "rk860_detect T e = (cv, e1)"
    and "cv_type cv = IS_RK860_0_1" and "version0 cv = 0 \<or> version1 cv = 0"
    and "read_trim T 0x40 (printf (Rk860Type IS_RK860_0_1) e1) = ((a0, a1, a2), e2)"
    and "read_trim T 0x41 e2 = ((b0, b1, b2), e3)"
  shows "trace (snd (fan53555_rk860_calibration T ord di e)) =
     trace e @
       [I2cRead 0x40 0x0E, I2cRead 0x41 0x0E,
        I2cRead 0x40 0x0B, I2cRead 0x40 0x0C, I2cRead 0x40 0x0D,
        I2cRead 0x41 0x0B, I2cRead 0x41 0x0C, I2cRead 0x41 0x0D,
        I2cWrite 0x40 0x0A 0x5a, I2cWrite 0x40 0x0E 0x84,
        I2cWrite 0x41 0x0A 0x5a, I2cWrite 0x40 0x0E 0x44,
        I2cWrite 0x41 0x0B b0, I2cWrite 0x41 0x0C b1, I2cWrite 0x41 0x0D b2,
        I2cWrite 0x42 0x0E 0x04,
        I2cWrite 0x40 0x0B a0, I2cWrite 0x40 0x0C a1, I2cWrite 0x40 0x0D a2]"
proof -
  have "snd (fan53555_rk860_calibration T ord di e) =
          calib_0_1 T (printf (Rk860Type IS_RK860_0_1) e1)"
    using assms(1-3)
    by (simp add: fan53555_rk860_calibration_def calib_dispatch_def
        IS_RK860_0_ONLY_def IS_RK860_1_ONLY_def IS_RK860_0_1_def)
  then show ?thesis
    using calib_0_1_trace[OF assms(4,5)] detect_trace[OF assms(1)]
    by (simp add: printf_fields)
qed

theorem calib_0_1_sequence_witness:
  "cv_type (fst (rk860_detect (regfile_transport 0x40) (env0 rf_PS))) = IS_RK860_0_1
   \<and> (version0 (fst (rk860_detect (regfile_transport 0x40) (env0 rf_PS))) = 0
        \<or> version1 (fst (rk860_detect (regfile_transport 0x40) (env0 rf_PS))) = 0)
   \<and> trace (snd (fan53555_rk860_calibration (regfile_transport 0x40) right_to_left priv0 (env0 rf_PS))) =
       [I2cRead 0x40 0x0E, I2cRead 0x41 0x0E,
        I2cRead 0x40 0x0B, I2cRead 0x40 0x0C, I2cRead 0x40 0x0D,
        I2cRead 0x41 0x0B, I2cRead 0x41 0x0C, I2cRead 0x41 0x0D,
        I2cWrite 0x40 0x0A 0x5a, I2cWrite 0x40 0x0E 0x84,
        I2cWrite 0x41 0x0A 0x5a, I2cWrite 0x40 0x0E 0x44,
        I2cWrite 0x41 0x0B 0x11, I2cWrite 0x41 0x0C 0x22, I2cWrite 0x41 0x0D 0x33,
        I2cWrite 0x42 0x0E 0x04,
        I2cWrite 0x40 0x0B 0xA1, I2cWrite 0x40 0x0C 0xA2, I2cWrite 0x40 0x0D 0xA3]"
proof -
  let ?T = "regfile_transport 0x40"
  let ?d = "rk860_detect ?T (env0 rf_PS)"
  let ?e1 = "printf (Rk860Type IS_RK860_0_1) (snd ?d)"
  have h1: "?d = (fst ?d, snd ?d)" by simp
  have h2: "cv_type (fst ?d) = IS_RK860_0_1" by (simp add: run_defs rf_PS_def)
  have h3: "version0 (fst ?d) = 0 \<or> version1 (fst ?d) = 0" by (simp add: run_defs rf_PS_def)
  have h4: "read_trim ?T 0x40 ?e1 = ((0xA1, 0xA2, 0xA3), snd (read_trim ?T 0x40 ?e1))"
    by (simp add: run_defs rf_PS_def)
  have h5: "read_trim ?T 0x41 (snd (read_trim ?T 0x40 ?e1)) =
              ((0x11, 0x22, 0x33), snd (read_trim ?T 0x41 (snd (read_trim ?T 0x40 ?e1))))"
    by (simp add: run_defs rf_PS_def)
  show ?thesis
    using h2 h3 calib_0_1_sequence [OF h1 h2 h3 h4 h5, where di = priv0 and ord = right_to_left]
    by (simp add: env0_def)
qed

text \<open>
  Claim C2 as stated has the marker \<open>0x44\<close> written to the version register of the chip at
  \<open>0x41\<close>. On a bus with both chips the fourth write of the driver is the marker \<open>0x44\<close> to
  \<open>0x40\<close>/\<open>0x0E\<close>, and nothing is written to \<open>0x41\<close>/\<open>0x0E\<close>.
\<close>

theorem calib_0_1_marker_goes_to_0x40:
  "rk860_type (fst (fan53555_rk860_calibration (regfile_transport 0x40) right_to_left priv0 (env0 rf_PS))) = IS_RK860_0_1
   \<and> filter (\<lambda>op. case op of I2cWrite a off v \<Rightarrow> True | _ \<Rightarrow> False)
        (trace (snd (fan53555_rk860_calibration (regfile_transport 0x40) right_to_left priv0 (env0 rf_PS)))) =
       [I2cWrite 0x40 0x0A 0x5a, I2cWrite 0x40 0x0E 0x84,
        I2cWrite 0x41 0x0A 0x5a, I2cWrite 0x40 0x0E 0x44,
        I2cWrite 0x41 0x0B 0x11, I2cWrite 0x41 0x0C 0x22, I2cWrite 0x41 0x0D 0x33,
        I2cWrite 0x42 0x0E 0x04,
        I2cWrite 0x40 0x0B 0xA1, I2cWrite 0x40 0x0C 0xA2, I2cWrite 0x40 0x0D 0xA3]
   \<and> I2cWrite 0x41 0x0E 0x44 \<notin>
       set (trace (snd (fan53555_rk860_calibration (regfile_transport 0x40) right_to_left priv0 (env0 rf_PS))))"
  by (simp add: run_defs rf_PS_def)

subsection \<open>The variant table\<close>

lemma GENMASK_6_0: "GENMASK 6 0 = 0x7F"
  by (simp add: GENMASK_def mask_eq_exp_minus_1)

lemma GENMASK_3_0: "GENMASK 3 0 = 0xF"
  by (simp add: GENMASK_def mask_eq_exp_minus_1)

lemma ucast_8_32_inj: "(ucast (a :: 8 word) :: 32 word) = ucast b \<Longrightarrow> a = b"
proof -
  assume "(ucast a :: 32 word) = ucast b"
  then have "(ucast (ucast a :: 32 word) :: 8 word) = ucast (ucast b :: 32 word)"
    by simp
  then show "a = b"
    by (simp add: ucast_up_ucast_id is_up)
qed

lemma voltages_scan_find:
  "voltages_scan ts priv out =
     (case find (ic_match priv) ts of
        None \<Rightarrow> (- EINVAL, priv, out @ [NotSupported (die_id priv) (die_rev priv)])
      | Some t \<Rightarrow> (0, ic_curve t priv, out))"
  by (induction ts) (auto simp: ic_match_def ic_curve_def)

lemma ic_types_keys:
  "list_all (\<lambda>t. list_all (\<lambda>t'. same_key t t' \<longrightarrow>
       t_vsel_min t = t_vsel_min t' \<and> t_vsel_step t = t_vsel_step t') ic_types) ic_types"
  by (simp add: ic_types_def mk_ic_def same_key_def
      FAN53555_VENDOR_FAIRCHILD_def FAN53555_VENDOR_SILERGY_def)

lemma ic_types_unique:
  assumes "t \<in> set ic_types" and "t' \<in> set ic_types"
    and "ic_match priv t" and "ic_match priv t'"
  shows "t_vsel_min t = t_vsel_min t' \<and> t_vsel_step t = t_vsel_step t'"
proof -
  have "same_key t t'"
    using assms(3,4) by (auto simp: ic_match_def same_key_def intro: ucast_8_32_inj)
  then show ?thesis
    using ic_types_keys assms(1,2) by (auto simp: list_all_iff)
qed

lemma find_in_set: "find P xs = Some x \<Longrightarrow> x \<in> set xs \<and> P x"
  by (induction xs) (auto split: if_splits)

lemma voltages_setup_find:
  "fan53555_voltages_setup priv out =
     (case find (ic_match priv) ic_types of
        None \<Rightarrow> (- EINVAL, priv, out @ [NotSupported (die_id priv) (die_rev priv)])
      | Some t \<Rightarrow> (0, ic_curve t priv, out))"
  by (simp add: fan53555_voltages_setup_def voltages_scan_find)

lemma voltages_setup_code:
  "fst (fan53555_voltages_setup priv out) =
     (if \<forall>t \<in> set ic_types. \<not> ic_match priv t then - EINVAL else 0)"
  by (auto simp: voltages_setup_find find_None_iff EINVAL_def split: option.splits
      dest: find_in_set)

lemma voltages_setup_vendor:
  "fan53555_voltages_setup priv out = (ret, priv', out') \<Longrightarrow> vendor priv' = vendor priv"
  by (auto simp: voltages_setup_find ic_curve_def split: option.splits)

text \<open>
  Claim C7. For every vendor, die identifier and die revision, \<^verbatim>\<open>fan53555_voltages_setup\<close>
  returns the first row of \<^verbatim>\<open>ic_types\<close>, in the order of the declaration, whose vendor and
  die identifier match and whose die revision matches when the row's \<^verbatim>\<open>check_rev\<close> is set.
  When some row matches, the result is success with exactly that row's \<^verbatim>\<open>vsel_min\<close> and
  \<^verbatim>\<open>vsel_step\<close>; when no row matches, the result is the failure \<open>- EINVAL\<close> and the private
  data are unchanged.
\<close>

theorem voltages_setup_resolves:
  "fan53555_voltages_setup priv out =
     (case find (ic_match priv) ic_types of
        None \<Rightarrow> (- EINVAL, priv, out @ [NotSupported (die_id priv) (die_rev priv)])
      | Some t \<Rightarrow> (0, ic_curve t priv, out))
   \<and> (\<forall>t \<in> set ic_types. ic_match priv t \<longrightarrow>
         fan53555_voltages_setup priv out = (0, ic_curve t priv, out))
   \<and> ((\<forall>t \<in> set ic_types. \<not> ic_match priv t) \<longrightarrow>
         fan53555_voltages_setup priv out =
           (- EINVAL, priv, out @ [NotSupported (die_id priv) (die_rev priv)]))"
proof (intro conjI ballI impI)
  show first: "fan53555_voltages_setup priv out =
     (case find (ic_match priv) ic_types of
        None \<Rightarrow> (- EINVAL, priv, out @ [NotSupported (die_id priv) (die_rev priv)])
      | Some t \<Rightarrow> (0, ic_curve t priv, out))"
    by (rule voltages_setup_find)
  {
    fix t assume t: "t \<in> set ic_types" "ic_match priv t"
    then have "find (ic_match priv) ic_types \<noteq> None"
      by (auto simp: find_None_iff)
    then obtain t' where f: "find (ic_match priv) ic_types = Some t'"
      by auto
    then have "t' \<in> set ic_types" "ic_match priv t'"
      using find_in_set by fastforce+
    then have "ic_curve t' priv = ic_curve t priv"
      using ic_types_unique[OF t(1) _ t(2)] by (simp add: ic_curve_def)
    then show "fan53555_voltages_setup priv out = (0, ic_curve t priv, out)"
      using first f by simp
  }
  {
    assume "\<forall>t \<in> set ic_types. \<not> ic_match priv t"
    then have "find (ic_match priv) ic_types = None"
      by (simp add: find_None_iff)
    then show "fan53555_voltages_setup priv out =
           (- EINVAL, priv, out @ [NotSupported (die_id priv) (die_rev priv)])"
      using first by simp
  }
qed

theorem voltages_setup_resolves_witness:
  "ic_types ! 10 \<in> set ic_types
   \<and> ic_match (priv0\<lparr>vendor := FAN53555_VENDOR_SILERGY, die_id := 0x8, die_rev := 0x5\<rparr>) (ic_types ! 10)
   \<and> fan53555_voltages_setup (priv0\<lparr>vendor := FAN53555_VENDOR_SILERGY, die_id := 0x8, die_rev := 0x5\<rparr>) [] =
       (0, priv0\<lparr>vendor := FAN53555_VENDOR_SILERGY, die_id := 0x8, die_rev := 0x5,
                 vsel_min := 712500, vsel_step := 12500\<rparr>, [])
   \<and> find (ic_match (priv0\<lparr>vendor := FAN53555_VENDOR_FAIRCHILD, die_id := 0x8, die_rev := 0x5\<rparr>)) ic_types = None
   \<and> fan53555_voltages_setup (priv0\<lparr>vendor := FAN53555_VENDOR_FAIRCHILD, die_id := 0x8, die_rev := 0x5\<rparr>) [] =
       (- 22, priv0\<lparr>vendor := FAN53555_VENDOR_FAIRCHILD, die_id := 0x8, die_rev := 0x5\<rparr>, [NotSupported 0x8 0x5])"
proof -
  let ?p = "priv0\<lparr>vendor := FAN53555_VENDOR_SILERGY, die_id := 0x8, die_rev := 0x5\<rparr>"
  let ?q = "priv0\<lparr>vendor := FAN53555_VENDOR_FAIRCHILD, die_id := 0x8, die_rev := 0x5\<rparr>"
  have a: "ic_types ! 10 \<in> set ic_types"
    by (simp add: ic_types_def)
  have b: "ic_match ?p (ic_types ! 10)"
    by (simp add: ic_types_def mk_ic_def ic_match_def priv0_def)
  have c: "\<forall>t \<in> set ic_types. \<not> ic_match ?q t"
    by (simp add: ic_types_def mk_ic_def ic_match_def priv0_def
        FAN53555_VENDOR_FAIRCHILD_def FAN53555_VENDOR_SILERGY_def)
  have d: "ic_curve (ic_types ! 10) ?p = ?p\<lparr>vsel_min := 712500, vsel_step := 12500\<rparr>"
    by (simp add: ic_types_def mk_ic_def ic_curve_def)
  from voltages_setup_resolves [of ?p "[]"] a b
  have "fan53555_voltages_setup ?p [] = (0, ic_curve (ic_types ! 10) ?p, [])"
    by blast
  moreover from voltages_setup_resolves [of ?q "[]"] c
  have "fan53555_voltages_setup ?q [] = (- EINVAL, ?q, [] @ [NotSupported (die_id ?q) (die_rev ?q)])"
    by blast
  ultimately show ?thesis
    using a b c d by (simp add: EINVAL_def find_None_iff)
qed

subsection \<open>The voltage codec\<close>

lemma no_wrap:
  assumes "0 \<le> k" and "k \<le> 63" and "uint m + 63 * uint s < 2 ^ 31"
  shows "sint (m + word_of_int k * s :: 32 word) = uint m + k * uint s"
proof -
  have s0: "0 \<le> uint s" and m0: "0 \<le> uint m"
    by simp_all
  have "k * uint s \<le> 63 * uint s"
    using assms(2) s0 by (rule mult_right_mono)
  then have lt: "uint m + k * uint s < 2 ^ 31"
    using assms(3) by linarith
  have ge: "0 \<le> uint m + k * uint s"
    using assms(1) s0 m0 by simp
  have "uint (m + word_of_int k * s :: 32 word) = (uint m + k * uint s) mod 2 ^ 32"
    by (simp add: uint_word_ariths uint_word_of_int mod_simps)
  also have "\<dots> = uint m + k * uint s"
    using lt ge by simp
  finally have u: "uint (m + word_of_int k * s :: 32 word) = uint m + k * uint s" .
  show ?thesis
    using lt ge by (simp add: sint_uint u signed_take_bit_int_eq_self)
qed

lemma ic_types_no_wrap:
  "\<forall>t \<in> set ic_types. uint (t_vsel_min t) + 63 * uint (t_vsel_step t) < 2 ^ 31"
  by (simp add: ic_types_def mk_ic_def)

text \<open>
  Claim C8. For every value \<open>reg\<close> that the read of the active register returns without
  error, \<^verbatim>\<open>get_value\<close> returns \<open>floor + (reg & 0x3F) * step\<close>: the bits of \<open>reg\<close> above the
  low six do not enter the result. (The sum is the one of the integers when
  \<open>floor + 63 * step\<close> is below \<open>2 ^ 31\<close>, which holds for every curve of the table.)
  So \<open>0xFF\<close> decodes as \<open>0x3F\<close> does; with floor 600000 and step 10000 both give 1230000.
\<close>

theorem get_value_masks_low_six_bits:
  assumes "reg_read T (vol_reg pdata) e = (reg, e1)" and "0 \<le> reg"
    and "uint (vsel_min priv) + 63 * uint (vsel_step priv) < 2 ^ 31"
  shows "fan53555_regulator_get_value T pdata priv e =
           (uint (vsel_min priv) + (reg AND 0x3f) * uint (vsel_step priv), e1)"
proof -
  have "0 \<le> reg AND 0x3f" and "reg AND 0x3f \<le> 63"
    using assms(2) by simp_all
  then have "sint (vsel_min priv + word_of_int (reg AND 0x3f) * vsel_step priv) =
      uint (vsel_min priv) + (reg AND 0x3f) * uint (vsel_step priv)"
    using assms(3) by (rule no_wrap)
  then show ?thesis
    using assms(1,2) by (simp add: fan53555_regulator_get_value_def)
qed

lemmas codec_defs =
  reg_read_def reg_write_def regfile_transport_def rf_read_def rf_write_def env0_def
  priv0_def priv_600_def plat_0_def rf_vsel_def FAN53555_VSEL0_def FAN53555_VSEL1_def
  EREMOTEIO_def

theorem get_value_masks_low_six_bits_witness:
  "fst (fan53555_regulator_get_value (regfile_transport 0x1c) plat_0 priv_600 (env0 (rf_vsel 0xFF))) = 1230000
   \<and> fst (fan53555_regulator_get_value (regfile_transport 0x1c) plat_0 priv_600 (env0 (rf_vsel 0x3F))) = 1230000"
proof -
  let ?T = "regfile_transport 0x1c"
  have w: "uint (vsel_min priv_600) + 63 * uint (vsel_step priv_600) < 2 ^ 31"
    by (simp add: priv_600_def)
  have a: "reg_read ?T (vol_reg plat_0) (env0 (rf_vsel 0xFF)) =
             (0xFF, snd (reg_read ?T (vol_reg plat_0) (env0 (rf_vsel 0xFF))))"
    by (simp add: codec_defs)
  have b: "reg_read ?T (vol_reg plat_0) (env0 (rf_vsel 0x3F)) =
             (0x3F, snd (reg_read ?T (vol_reg plat_0) (env0 (rf_vsel 0x3F))))"
    by (simp add: codec_defs)
  have c: "(0xFF :: int) AND 0x3f = 0x3f" "(0x3F :: int) AND 0x3f = 0x3f"
    by simp_all
  show ?thesis
    using get_value_masks_low_six_bits [OF a _ w] get_value_masks_low_six_bits [OF b _ w] c
    by (simp add: priv_600_def)
qed

lemma vol_uint:
  "uint (ucast ((word_of_int uV - m) div s :: 32 word) :: 8 word) =
     ((uV - uint m) mod 2 ^ 32 div uint s) mod 256"
proof -
  have "uint (word_of_int uV - m :: 32 word) = (uV - uint m) mod 2 ^ 32"
    by (simp add: uint_word_ariths uint_word_of_int mod_simps)
  then show ?thesis
    by (simp add: unsigned_ucast_eq uint_div take_bit_eq_mod)
qed

lemma below_2_32: "0 \<le> f \<Longrightarrow> uV < 2 ^ 31 \<Longrightarrow> uV - f < (2 :: int) ^ 32"
  by simp

lemma div_below:
  assumes "0 < (s :: int)" and "d < 256 * s"
  shows "d div s < 256"
proof (rule ccontr)
  assume "\<not> d div s < 256"
  then have "256 \<le> d div s"
    by simp
  then have "s * 256 \<le> s * (d div s)"
    using assms(1) by (simp add: mult_left_mono)
  moreover have "s * (d div s) \<le> d"
    using assms(1) by (metis mult_div_mod_eq pos_mod_sign le_add_same_cancel1)
  ultimately show False
    using assms(2) by simp
qed

lemma encode_spec_nonneg:
  "0 \<le> d \<Longrightarrow> 0 < s \<Longrightarrow> encode_spec f s (f + d) = d div s"
  by (cases "d = 0") (simp_all add: encode_spec_def)

text \<open>
  Claim C3, as amended. For every \<^verbatim>\<open>uV\<close> (and a step that is not 0),
  \<^verbatim>\<open>set_value\<close> computes \<open>vol\<close> in unsigned 32-bit arithmetic and keeps its low byte:
  \<open>vol = (((uV - floor) mod 2 ^ 32) div step) mod 256\<close>. For
  \<open>floor \<le> uV < floor + 256 * step\<close> this is the quotient \<open>(uV - floor) / step\<close> truncated
  toward zero. The byte is neither clamped nor rejected: it is handed to the
  read-modify-write of the active register as it is.
\<close>

theorem set_value_vol_unsigned:
  assumes "vsel_step priv \<noteq> 0"
  shows "\<exists>vol. set_value_vol priv uV = Some vol
     \<and> uint vol = ((uV - uint (vsel_min priv)) mod 2 ^ 32 div uint (vsel_step priv)) mod 256
     \<and> (uint (vsel_min priv) \<le> uV \<and> uV < uint (vsel_min priv) + 256 * uint (vsel_step priv)
          \<and> uV < 2 ^ 31
        \<longrightarrow> uint vol = encode_spec (uint (vsel_min priv)) (uint (vsel_step priv)) uV)
     \<and> fan53555_regulator_set_value T pdata priv uV e =
         Some (pmic_clrsetbits T (vol_reg pdata) 0x7F (ucast vol) e)"
proof -
  let ?f = "uint (vsel_min priv)" and ?s = "uint (vsel_step priv)"
  let ?vol = "ucast ((word_of_int uV - vsel_min priv) div vsel_step priv) :: u8"
  have v: "set_value_vol priv uV = Some ?vol"
    using assms by (simp add: set_value_vol_def)
  have u: "uint ?vol = ((uV - ?f) mod 2 ^ 32 div ?s) mod 256"
    by (rule vol_uint)
  have "?s \<noteq> 0"
    using assms by (simp add: uint_0_iff)
  moreover have "0 \<le> ?s"
    by simp
  ultimately have spos: "0 < ?s"
    by linarith
  have r: "uint ?vol = encode_spec ?f ?s uV"
    if "?f \<le> uV" and "uV < ?f + 256 * ?s" and "uV < 2 ^ 31"
  proof -
    have d0: "0 \<le> uV - ?f" using that(1) by simp
    have "uV - ?f < 2 ^ 32"
      by (rule below_2_32 [OF _ that(3)]) simp
    then have m: "(uV - ?f) mod 2 ^ 32 = uV - ?f"
      using d0 by simp
    have "(uV - ?f) div ?s < 256"
      using that(2) by (intro div_below [OF spos]) simp
    moreover have "0 \<le> (uV - ?f) div ?s"
      using d0 spos by (simp add: pos_imp_zdiv_nonneg_iff)
    ultimately have "((uV - ?f) div ?s) mod 256 = (uV - ?f) div ?s"
      by simp
    moreover have "encode_spec ?f ?s uV = (uV - ?f) div ?s"
      using encode_spec_nonneg [OF d0 spos, of ?f] by simp
    ultimately show ?thesis
      using u m by simp
  qed
  have w: "fan53555_regulator_set_value T pdata priv uV e =
         Some (pmic_clrsetbits T (vol_reg pdata) 0x7F (ucast ?vol) e)"
    using v by (simp add: fan53555_regulator_set_value_def GENMASK_6_0)
  show ?thesis
    using v u r w by blast
qed

theorem set_value_vol_unsigned_witness:
  "vsel_step priv_600 \<noteq> 0
   \<and> set_value_vol priv_600 605000 = Some 0
   \<and> set_value_vol priv_600 760000 = Some 0x10
   \<and> encode_spec 600000 10000 760000 = 0x10"
proof -
  have s: "vsel_step priv_600 \<noteq> 0"
    by (simp add: priv_600_def)
  have "set_value_vol priv_600 605000 = Some 0" "set_value_vol priv_600 760000 = Some 0x10"
    by (simp_all add: set_value_vol_def priv_600_def)
  moreover have "encode_spec 600000 10000 760000 = 0x10"
    using set_value_vol_unsigned [OF s, of 760000] calculation
    by (auto simp: priv_600_def)
  ultimately show ?thesis
    using s by simp
qed

text \<open>
  Claim C3 as stated has a negative quotient, and one beyond the range of the register,
  passed through unchanged. For 590000 microvolts on the curve of floor 600000 and step
  10000 the quotient of the specification is \<open>-1\<close>; the driver hands \<open>0xB7\<close> to the
  register write, which is not \<open>-1\<close>, nor its low byte \<open>0xFF\<close>. For 3160000 microvolts the
  quotient is 256 and the driver hands over 0.
\<close>

theorem set_value_vol_not_passed_through:
  "encode_spec 600000 10000 590000 = - 1
   \<and> set_value_vol priv_600 590000 = Some 0xB7
   \<and> uint (0xB7 :: u8) \<noteq> - 1
   \<and> (0xB7 :: u8) \<noteq> word_of_int (- 1)
   \<and> encode_spec 600000 10000 3160000 = 256
   \<and> set_value_vol priv_600 3160000 = Some 0"
  by (simp add: encode_spec_def set_value_vol_def priv_600_def priv0_def)

subsection \<open>The read-modify-write of \<^verbatim>\<open>set_value\<close>\<close>

lemma mask_7: "(0x7F :: 'a::len word) = mask 7"
  by (simp add: mask_eq_exp_minus_1)

lemma low_byte:
  "(ucast (((word_of_int old :: 32 word) AND NOT 0x7F) OR ucast (vol :: 8 word)) :: 8 word) =
     (word_of_int old AND NOT 0x7F) OR vol"
  unfolding mask_7 by (rule bit_word_eqI) (auto simp: bit_simps)

lemma below_0x80: "(vol :: 8 word) < 0x80 \<Longrightarrow> vol AND mask 7 = vol"
  by (simp add: mask_eq_iff word_less_def)

lemma high_bit_kept:
  "(vol :: 8 word) < 0x80 \<Longrightarrow> ((w AND NOT 0x7F) OR vol) AND NOT 0x7F = w AND NOT 0x7F"
  unfolding mask_7
  apply (drule below_0x80)
  apply (rule bit_word_eqI)
  apply (drule_tac f = "\<lambda>x. bit x n" in arg_cong)
  apply (auto simp: bit_simps)
  done

lemma low_bits_set:
  "(vol :: 8 word) < 0x80 \<Longrightarrow> ((w AND NOT 0x7F) OR vol) AND 0x7F = vol"
  unfolding mask_7
  apply (drule below_0x80)
  apply (rule bit_word_eqI)
  apply (drule_tac f = "\<lambda>x. bit x n" in arg_cong)
  apply (auto simp: bit_simps)
  done

text \<open>
  Claim C9, as amended. \<^verbatim>\<open>set_value\<close> reads the active register and, when the read
  succeeds with value \<open>old\<close>, writes \<open>(old AND NOT 0x7F) OR vol\<close> to it; a failed read is
  returned with nothing written. Whenever the encoded value \<open>vol\<close> is below \<open>0x80\<close>, the
  byte written has the bits of \<open>old\<close> outside bits 0 to 6 and has \<open>vol\<close> in bits 0 to 6.
  With \<open>0x80\<close> in the register and a voltage that encodes to \<open>0x10\<close>, the register holds
  \<open>0x90\<close> afterwards.
\<close>

theorem set_value_read_modify_write:
  assumes "reg_read T (vol_reg pdata) e = (old, e1)"
    and "set_value_vol priv uV = Some vol"
  shows "(old < 0 \<longrightarrow> fan53555_regulator_set_value T pdata priv uV e = Some (old, e1))
     \<and> (0 \<le> old \<longrightarrow> fan53555_regulator_set_value T pdata priv uV e =
           Some (reg_write T (vol_reg pdata) ((word_of_int old AND NOT 0x7F) OR vol) e1))
     \<and> (vol < 0x80 \<longrightarrow>
           ((word_of_int old AND NOT 0x7F) OR vol) AND NOT 0x7F = word_of_int old AND NOT 0x7F
           \<and> ((word_of_int old AND NOT 0x7F) OR vol) AND 0x7F = vol)"
  using assms low_byte [of old vol] high_bit_kept [of vol "word_of_int old"]
    low_bits_set [of vol "word_of_int old"]
  by (simp add: fan53555_regulator_set_value_def pmic_clrsetbits_def GENMASK_6_0)

theorem set_value_read_modify_write_witness:
  "set_value_vol priv_600 760000 = Some 0x10
   \<and> (0x10 :: u8) < 0x80
   \<and> fan53555_regulator_set_value (regfile_transport 0x1c) plat_0 priv_600 760000 (env0 (rf_vsel 0x80)) =
       Some (0, \<lparr>bus = ((0x1c, 0x00), 0x90) # rf_vsel 0x80,
                 trace = [PmicRead 0x00, PmicWrite 0x00 0x90], console = []\<rparr>)
   \<and> map_of (((0x1c, 0x00), 0x90) # rf_vsel 0x80) (0x1c, 0x00) = Some 0x90"
proof -
  let ?T = "regfile_transport 0x1c"
  have a: "reg_read ?T (vol_reg plat_0) (env0 (rf_vsel 0x80)) =
             (0x80, \<lparr>bus = rf_vsel 0x80, trace = [PmicRead 0x00], console = []\<rparr>)"
    by (simp add: codec_defs)
  have b: "set_value_vol priv_600 760000 = Some 0x10"
    by (simp add: set_value_vol_def priv_600_def)
  show ?thesis
    using b set_value_read_modify_write [OF a b]
    by (simp add: codec_defs)
qed

text \<open>
  Claim C9 as stated leaves bit 7 unchanged for every initial value of the register. With
  \<open>0x00\<close> in the register and 1880000 microvolts on the curve of floor 600000 and step
  10000, the encoded value is \<open>0x80\<close> and the register holds \<open>0x80\<close> afterwards: bit 7 went
  from 0 to 1.
\<close>

theorem set_value_sets_bit_7:
  "map_of (rf_vsel 0x00) (0x1c, 0x00) = Some 0x00
   \<and> set_value_vol priv_600 1880000 = Some 0x80
   \<and> fan53555_regulator_set_value (regfile_transport 0x1c) plat_0 priv_600 1880000 (env0 (rf_vsel 0x00)) =
       Some (0, \<lparr>bus = ((0x1c, 0x00), 0x80) # rf_vsel 0x00,
                 trace = [PmicRead 0x00, PmicWrite 0x00 0x80], console = []\<rparr>)
   \<and> map_of (((0x1c, 0x00), 0x80) # rf_vsel 0x00) (0x1c, 0x00) = Some 0x80
   \<and> (0x80 :: u8) AND NOT 0x7F \<noteq> 0x00 AND NOT 0x7F"
  by (simp add: fan53555_regulator_set_value_def set_value_vol_def pmic_clrsetbits_def
      GENMASK_6_0 codec_defs)

subsection \<open>Configuration\<close>

text \<open>
  Claim C10. When the node has no selector property, \<^verbatim>\<open>of_to_plat\<close> succeeds with
  \<^verbatim>\<open>VSEL1\<close> as sleep register and \<^verbatim>\<open>VSEL0\<close> as active register. It fails, with
  \<open>- EINVAL\<close>, exactly when the property is present with a value that is neither \<^verbatim>\<open>VSEL0\<close>
  nor \<^verbatim>\<open>VSEL1\<close>. In every other case it returns 0, and the sleep and the active register
  are \<^verbatim>\<open>VSEL0\<close> and \<^verbatim>\<open>VSEL1\<close> in one order or the other, so they differ.
\<close>

theorem of_to_plat_selector:
  assumes "fan53555_regulator_of_to_plat node plat uc out = (ret, plat', uc', out')"
  shows "(node selector = None \<longrightarrow>
            ret = 0 \<and> sleep_reg plat' = FAN53555_VSEL1 \<and> vol_reg plat' = FAN53555_VSEL0)
     \<and> (ret = - EINVAL \<longleftrightarrow>
            (\<exists>v. node selector = Some v \<and> v \<noteq> FAN53555_VSEL0 \<and> v \<noteq> FAN53555_VSEL1))
     \<and> (ret \<noteq> - EINVAL \<longrightarrow>
            ret = 0
            \<and> (sleep_reg plat' = FAN53555_VSEL0 \<and> vol_reg plat' = FAN53555_VSEL1
                \<or> sleep_reg plat' = FAN53555_VSEL1 \<and> vol_reg plat' = FAN53555_VSEL0)
            \<and> sleep_reg plat' \<noteq> vol_reg plat')"
  using assms
  by (auto simp: fan53555_regulator_of_to_plat_def dev_read_u32_default_def selector_def
      FAN53555_VSEL0_def FAN53555_VSEL1_def EINVAL_def Let_def
      split: option.splits if_splits)

theorem of_to_plat_selector_witness:
  "Map.empty selector = None
   \<and> fan53555_regulator_of_to_plat Map.empty \<lparr>vol_reg = 7, sleep_reg = 7\<rparr> REGULATOR_TYPE_OTHER [] =
       (0, \<lparr>vol_reg = FAN53555_VSEL0, sleep_reg = FAN53555_VSEL1\<rparr>, REGULATOR_TYPE_BUCK, [])
   \<and> node_5 selector = Some 5
   \<and> fst (fan53555_regulator_of_to_plat node_5 \<lparr>vol_reg = 7, sleep_reg = 7\<rparr> REGULATOR_TYPE_OTHER []) = - EINVAL"
proof -
  let ?p = "\<lparr>vol_reg = 7, sleep_reg = 7\<rparr>"
  let ?r = "fan53555_regulator_of_to_plat Map.empty ?p REGULATOR_TYPE_OTHER []"
  let ?q = "fan53555_regulator_of_to_plat node_5 ?p REGULATOR_TYPE_OTHER []"
  have a: "?r = (fst ?r, fst (snd ?r), fst (snd (snd ?r)), snd (snd (snd ?r)))"
    by simp
  have b: "?q = (fst ?q, fst (snd ?q), fst (snd (snd ?q)), snd (snd (snd ?q)))"
    by simp
  have n: "node_5 selector = Some 5" "(5 :: u32) \<noteq> FAN53555_VSEL0" "(5 :: u32) \<noteq> FAN53555_VSEL1"
    by (simp_all add: node_5_def FAN53555_VSEL0_def FAN53555_VSEL1_def)
  have "fst ?q = - EINVAL"
    using of_to_plat_selector [OF b] n by blast
  moreover have "fst ?r = 0 \<and> sleep_reg (fst (snd ?r)) = FAN53555_VSEL1
      \<and> vol_reg (fst (snd ?r)) = FAN53555_VSEL0"
    using of_to_plat_selector [OF a] by simp
  moreover have "fst (snd (snd ?r)) = REGULATOR_TYPE_BUCK" "snd (snd (snd ?r)) = []"
    by (simp_all add: fan53555_regulator_of_to_plat_def dev_read_u32_default_def
        FAN53555_VSEL0_def FAN53555_VSEL1_def)
  moreover have "fst (snd ?r) = \<lparr>vol_reg = vol_reg (fst (snd ?r)), sleep_reg = sleep_reg (fst (snd ?r))\<rparr>"
    by simp
  ultimately show ?thesis
    using n(1) by (metis a empty_iff domIff dom_empty)
qed

subsection \<open>Classification and guard of the calibration\<close>

lemma calibration_type:
  "rk860_type (fst (fan53555_rk860_calibration T ord di e)) = cv_type (fst (rk860_detect T e))"
  by (simp add: fan53555_rk860_calibration_def split_beta Let_def)

lemma probe_0_result:
  assumes "dm_i2c_addr_read T (bus e) 0x40 0x0E = (r0, x0, s1)"
  shows "rk860_probe_0 T cv e =
    (if r0 < 0 then cv
     else if x0 = 0x00 \<or> x0 = 0x04 then cv\<lparr>cv_type := IS_RK860_0_ONLY, version0 := x0 AND 0x04\<rparr>
     else cv\<lparr>flag := 1\<rparr>,
     \<lparr>bus = s1, trace = trace e @ [I2cRead 0x40 0x0E],
      console = console e @ [if r0 < 0 then NoRk860_0
                             else if x0 = 0x00 \<or> x0 = 0x04 then HaveRk860_0 x0
                             else NotRk860_0 x0]\<rparr>)"
  using assms by (simp add: rk860_probe_0_def addr_read_def printf_def)

lemma probe_1_result:
  assumes "dm_i2c_addr_read T (bus e) 0x41 0x0E = (r1, x1, s2)"
  shows "rk860_probe_1 T cv e =
    (if r1 < 0 then cv
     else if x1 = 0x44 \<or> x1 = 0x40
     then cv\<lparr>cv_type := (if cv_type cv \<noteq> 0 then IS_RK860_0_1 else IS_RK860_1_ONLY),
             version1 := x1 AND 0x04\<rparr>
     else cv\<lparr>flag := 2\<rparr>,
     \<lparr>bus = s2, trace = trace e @ [I2cRead 0x41 0x0E],
      console = console e @ [if r1 < 0 then NoRk860_1
                             else if x1 = 0x44 \<or> x1 = 0x40 then HaveRk860_1 x1
                             else NotRk860_1 x1]\<rparr>)"
  using assms by (simp add: rk860_probe_1_def addr_read_def printf_def)

text \<open>
  Claim C4. Let the read of \<open>0x40\<close>/\<open>0x0E\<close> return code \<open>r0\<close> and byte \<open>x0\<close>, and the read of
  \<open>0x41\<close>/\<open>0x0E\<close> that follows return \<open>r1\<close> and \<open>x1\<close>. Both reads are always issued: a failed
  read of \<open>0x40\<close> leaves the variables as they were, prints that the chip is absent, and the
  function goes on. A read of \<open>0x40\<close> that succeeds with \<open>0x00\<close> or \<open>0x04\<close> marks the chip
  genuine, with \<^verbatim>\<open>version0 = x0 & 0x04\<close>; with any other byte it sets the flag to 1 and does
  not set the type. A read of \<open>0x41\<close> that succeeds with \<open>0x44\<close> or \<open>0x40\<close> marks that chip
  genuine, with \<^verbatim>\<open>version1 = x1 & 0x04\<close>. The type is \<^verbatim>\<open>IS_RK860_0_ONLY\<close> iff only the first
  is genuine, \<^verbatim>\<open>IS_RK860_1_ONLY\<close> iff only the second is, \<^verbatim>\<open>IS_RK860_0_1\<close> iff both are, and
  0 iff none is; it is the \<^verbatim>\<open>rk860_type\<close> that the calibration leaves in the private data.
\<close>

theorem rk860_classification:
  assumes "dm_i2c_addr_read T (bus e) 0x40 0x0E = (r0, x0, s1)"
    and "dm_i2c_addr_read T s1 0x41 0x0E = (r1, x1, s2)"
  shows "\<exists>cv e'. rk860_detect T e = (cv, e')
     \<and> bus e' = s2 \<and> trace e' = trace e @ [I2cRead 0x40 0x0E, I2cRead 0x41 0x0E]
     \<and> (r0 < 0 \<longrightarrow> fst (rk860_probe_0 T calib_init e) = calib_init
                    \<and> console (snd (rk860_probe_0 T calib_init e)) = console e @ [NoRk860_0])
     \<and> (0 \<le> r0 \<and> \<not> genuine_0 r0 x0 \<longrightarrow>
           flag (fst (rk860_probe_0 T calib_init e)) = 1
           \<and> cv_type (fst (rk860_probe_0 T calib_init e)) = 0)
     \<and> (genuine_0 r0 x0 \<longrightarrow> version0 cv = x0 AND 0x04)
     \<and> (genuine_1 r1 x1 \<longrightarrow> version1 cv = x1 AND 0x04)
     \<and> (cv_type cv = IS_RK860_0_ONLY \<longleftrightarrow> genuine_0 r0 x0 \<and> \<not> genuine_1 r1 x1)
     \<and> (cv_type cv = IS_RK860_1_ONLY \<longleftrightarrow> \<not> genuine_0 r0 x0 \<and> genuine_1 r1 x1)
     \<and> (cv_type cv = IS_RK860_0_1 \<longleftrightarrow> genuine_0 r0 x0 \<and> genuine_1 r1 x1)
     \<and> (cv_type cv = 0 \<longleftrightarrow> \<not> genuine_0 r0 x0 \<and> \<not> genuine_1 r1 x1)
     \<and> rk860_type (fst (fan53555_rk860_calibration T ord di e)) = cv_type cv"
proof -
  obtain cv0 e0 where p0: "rk860_probe_0 T calib_init e = (cv0, e0)"
    by (cases "rk860_probe_0 T calib_init e")
  have b0: "bus e0 = s1" and t0: "trace e0 = trace e @ [I2cRead 0x40 0x0E]"
    using p0 probe_0_result [OF assms(1), of calib_init] by auto
  have r1: "dm_i2c_addr_read T (bus e0) 0x41 0x0E = (r1, x1, s2)"
    using assms(2) b0 by simp
  obtain cv e' where p1: "rk860_probe_1 T cv0 e0 = (cv, e')"
    by (cases "rk860_probe_1 T cv0 e0")
  have d: "rk860_detect T e = (cv, e')"
    using p0 p1 by (simp add: rk860_detect_def)
  have cv0: "cv0 = (if r0 < 0 then calib_init
     else if x0 = 0x00 \<or> x0 = 0x04
     then calib_init\<lparr>cv_type := IS_RK860_0_ONLY, version0 := x0 AND 0x04\<rparr>
     else calib_init\<lparr>flag := 1\<rparr>)"
    using p0 probe_0_result [OF assms(1), of calib_init] by simp
  have cv: "cv = (if r1 < 0 then cv0
     else if x1 = 0x44 \<or> x1 = 0x40
     then cv0\<lparr>cv_type := (if cv_type cv0 \<noteq> 0 then IS_RK860_0_1 else IS_RK860_1_ONLY),
             version1 := x1 AND 0x04\<rparr>
     else cv0\<lparr>flag := 2\<rparr>)"
    using p1 probe_1_result [OF r1, of cv0] by simp
  have e': "bus e' = s2" "trace e' = trace e @ [I2cRead 0x40 0x0E, I2cRead 0x41 0x0E]"
    using p1 probe_1_result [OF r1, of cv0] t0 by auto
  have c0: "r0 < 0 \<longrightarrow> fst (rk860_probe_0 T calib_init e) = calib_init
                    \<and> console (snd (rk860_probe_0 T calib_init e)) = console e @ [NoRk860_0]"
    using probe_0_result [OF assms(1), of calib_init] by simp
  have c1: "0 \<le> r0 \<and> \<not> genuine_0 r0 x0 \<longrightarrow>
           flag (fst (rk860_probe_0 T calib_init e)) = 1
           \<and> cv_type (fst (rk860_probe_0 T calib_init e)) = 0"
    using p0 cv0 by (auto simp: genuine_0_def calib_init_def)
  have c2: "genuine_0 r0 x0 \<longrightarrow> version0 cv = x0 AND 0x04"
    using cv0 cv by (auto simp: genuine_0_def)
  have c3: "genuine_1 r1 x1 \<longrightarrow> version1 cv = x1 AND 0x04"
    using cv by (auto simp: genuine_1_def)
  have ty0: "cv_type cv0 = (if genuine_0 r0 x0 then IS_RK860_0_ONLY else 0)"
    using cv0 by (auto simp: genuine_0_def calib_init_def)
  have ty: "cv_type cv = (if genuine_1 r1 x1
       then (if genuine_0 r0 x0 then IS_RK860_0_1 else IS_RK860_1_ONLY)
       else (if genuine_0 r0 x0 then IS_RK860_0_ONLY else 0))"
    using cv ty0 by (auto simp: genuine_1_def IS_RK860_0_ONLY_def)
  have c4: "cv_type cv = IS_RK860_0_ONLY \<longleftrightarrow> genuine_0 r0 x0 \<and> \<not> genuine_1 r1 x1"
    and c5: "cv_type cv = IS_RK860_1_ONLY \<longleftrightarrow> \<not> genuine_0 r0 x0 \<and> genuine_1 r1 x1"
    and c6: "cv_type cv = IS_RK860_0_1 \<longleftrightarrow> genuine_0 r0 x0 \<and> genuine_1 r1 x1"
    and c7: "cv_type cv = 0 \<longleftrightarrow> \<not> genuine_0 r0 x0 \<and> \<not> genuine_1 r1 x1"
    by (simp_all add: ty IS_RK860_0_ONLY_def IS_RK860_1_ONLY_def IS_RK860_0_1_def)
  have c8: "rk860_type (fst (fan53555_rk860_calibration T ord di e)) = cv_type cv"
    using d by (simp add: calibration_type)
  show ?thesis
    using d e' c0 c1 c2 c3 c4 c5 c6 c7 c8 by blast
qed

theorem rk860_classification_witness:
  "dm_i2c_addr_read (regfile_transport 0x41) (bus (env0 rf_guard)) 0x40 0x0E = (0, 0x10, rf_guard)
   \<and> dm_i2c_addr_read (regfile_transport 0x41) rf_guard 0x41 0x0E = (0, 0x40, rf_guard)
   \<and> \<not> genuine_0 0 0x10 \<and> genuine_1 0 0x40
   \<and> cv_type (fst (rk860_detect (regfile_transport 0x41) (env0 rf_guard))) = IS_RK860_1_ONLY
   \<and> version1 (fst (rk860_detect (regfile_transport 0x41) (env0 rf_guard))) = 0
   \<and> rk860_type (fst (fan53555_rk860_calibration (regfile_transport 0x41) right_to_left priv0 (env0 rf_guard))) =
       IS_RK860_1_ONLY"
proof -
  let ?T = "regfile_transport 0x41"
  have a: "dm_i2c_addr_read ?T (bus (env0 rf_guard)) 0x40 0x0E = (0, 0x10, rf_guard)"
    by (simp add: regfile_transport_def rf_read_def env0_def rf_guard_def)
  have b: "dm_i2c_addr_read ?T rf_guard 0x41 0x0E = (0, 0x40, rf_guard)"
    by (simp add: regfile_transport_def rf_read_def rf_guard_def)
  have g: "\<not> genuine_0 0 0x10" "genuine_1 0 0x40"
    by (simp_all add: genuine_0_def genuine_1_def)
  show ?thesis
    using a b g rk860_classification [OF a b, where di = priv0 and ord = right_to_left] by auto
qed

text \<open>
  In terms of the two identification reads, the guard's condition holds exactly when the
  read of \<open>0x40\<close> succeeds with an unrecognized byte and the read of \<open>0x41\<close> succeeds
  with \<open>0x40\<close>.
\<close>

lemma guard_condition:
  assumes "dm_i2c_addr_read T (bus e) 0x40 0x0E = (r0, x0, s1)"
    and "dm_i2c_addr_read T s1 0x41 0x0E = (r1, x1, s2)"
  shows "flag (fst (rk860_detect T e)) = 1 \<and> cv_type (fst (rk860_detect T e)) = IS_RK860_1_ONLY
           \<and> version1 (fst (rk860_detect T e)) = 0
         \<longleftrightarrow> 0 \<le> r0 \<and> \<not> genuine_0 r0 x0 \<and> 0 \<le> r1 \<and> x1 = 0x40"
proof -
  obtain cv0 e0 where p0: "rk860_probe_0 T calib_init e = (cv0, e0)"
    by (cases "rk860_probe_0 T calib_init e")
  have b0: "bus e0 = s1"
    using p0 probe_0_result [OF assms(1), of calib_init] by auto
  have r1: "dm_i2c_addr_read T (bus e0) 0x41 0x0E = (r1, x1, s2)"
    using assms(2) b0 by simp
  have "(0x44 :: u8) AND 0x04 \<noteq> 0" "(0x40 :: u8) AND 0x04 = 0"
    by simp_all
  then show ?thesis
    using p0 probe_0_result [OF assms(1), of calib_init] probe_1_result [OF r1, of cv0]
    by (auto simp: rk860_detect_def genuine_0_def calib_init_def
        IS_RK860_0_ONLY_def IS_RK860_1_ONLY_def IS_RK860_0_1_def split: if_splits)
qed

text \<open>
  Claim C5. When the flag is 1 (the chip at \<open>0x40\<close> answered with an unrecognized byte), the
  type is \<^verbatim>\<open>IS_RK860_1_ONLY\<close> and \<^verbatim>\<open>version1\<close> is 0, the calibration prints the warning and
  returns: the two identification reads are all that it issued on the bus, and no register
  is written.
\<close>

theorem guard_aborts_without_writes:
  assumes "rk860_detect T e = (cv, e1)"
    and "flag cv = 1" and "cv_type cv = IS_RK860_1_ONLY" and "version1 cv = 0"
  shows "fan53555_rk860_calibration T ord di e =
           (di\<lparr>rk860_type := IS_RK860_1_ONLY\<rparr>, printf WarnCannotSupport e1)
     \<and> trace (snd (fan53555_rk860_calibration T ord di e)) =
         trace e @ [I2cRead 0x40 0x0E, I2cRead 0x41 0x0E]
     \<and> bus (snd (fan53555_rk860_calibration T ord di e)) = bus e1
     \<and> last (console (snd (fan53555_rk860_calibration T ord di e))) = WarnCannotSupport"
  using assms detect_trace [OF assms(1)]
  by (simp add: fan53555_rk860_calibration_def printf_def)

theorem guard_aborts_without_writes_witness:
  "flag (fst (rk860_detect (regfile_transport 0x41) (env0 rf_guard))) = 1
   \<and> cv_type (fst (rk860_detect (regfile_transport 0x41) (env0 rf_guard))) = IS_RK860_1_ONLY
   \<and> version1 (fst (rk860_detect (regfile_transport 0x41) (env0 rf_guard))) = 0
   \<and> fan53555_rk860_calibration (regfile_transport 0x41) right_to_left priv0 (env0 rf_guard) =
       (priv0\<lparr>rk860_type := IS_RK860_1_ONLY\<rparr>,
        \<lparr>bus = rf_guard, trace = [I2cRead 0x40 0x0E, I2cRead 0x41 0x0E],
         console = [NotRk860_0 0x10, HaveRk860_1 0x40, WarnCannotSupport]\<rparr>)"
proof -
  let ?T = "regfile_transport 0x41"
  let ?d = "rk860_detect ?T (env0 rf_guard)"
  have h1: "?d = (fst ?d, snd ?d)" by simp
  have h2: "flag (fst ?d) = 1" by (simp add: run_defs rf_guard_def)
  have h3: "cv_type (fst ?d) = IS_RK860_1_ONLY" by (simp add: run_defs rf_guard_def)
  have h4: "version1 (fst ?d) = 0" by (simp add: run_defs rf_guard_def)
  have s: "snd ?d = \<lparr>bus = rf_guard, trace = [I2cRead 0x40 0x0E, I2cRead 0x41 0x0E],
         console = [NotRk860_0 0x10, HaveRk860_1 0x40]\<rparr>"
    by (simp add: run_defs rf_guard_def)
  show ?thesis
    using h2 h3 h4 guard_aborts_without_writes [OF h1 h2 h3 h4, where di = priv0 and ord = right_to_left]
    by (simp add: s printf_def)
qed

subsection \<open>The return code of \<^verbatim>\<open>fan53555_probe\<close>\<close>

text \<open>
  Claim C6. Let the read of \<^verbatim>\<open>ID1\<close> return \<open>ID1\<close> and the read of \<^verbatim>\<open>ID2\<close> that follows
  return \<open>ID2\<close>. \<^verbatim>\<open>fan53555_probe\<close> returns \<open>ID1\<close> when it is negative, else \<open>ID2\<close> when it is
  negative, else \<open>- ENODATA\<close> when no row of the table matches the vendor and the low
  nibbles of \<open>ID1\<close> and \<open>ID2\<close>, else 0. So it fails exactly in these three cases, and
  whatever the calibration meets on the bus, for any transport, the result is 0.
\<close>

theorem probe_return_code:
  assumes "reg_read T FAN53555_ID1 e = (ID1, e1)"
    and "reg_read T FAN53555_ID2 e1 = (ID2, e2)"
  shows "fst (fan53555_probe T ord driver_data priv e) =
     (if ID1 < 0 then ID1
      else if ID2 < 0 then ID2
      else if \<forall>t \<in> set ic_types.
                \<not> ic_match (priv\<lparr>vendor := driver_data, die_id := word_of_int ID1 AND 0xF,
                                    die_rev := word_of_int ID2 AND 0xF\<rparr>) t
      then - ENODATA else 0)
   \<and> (fst (fan53555_probe T ord driver_data priv e) \<noteq> 0 \<longleftrightarrow>
        ID1 < 0 \<or> ID2 < 0
        \<or> (\<forall>t \<in> set ic_types.
              \<not> ic_match (priv\<lparr>vendor := driver_data, die_id := word_of_int ID1 AND 0xF,
                                  die_rev := word_of_int ID2 AND 0xF\<rparr>) t))"
proof -
  let ?p = "priv\<lparr>vendor := driver_data, die_id := word_of_int ID1 AND 0xF,
                  die_rev := word_of_int ID2 AND 0xF\<rparr>"
  have c: "fst (fan53555_voltages_setup ?p out) < 0 \<longleftrightarrow> (\<forall>t \<in> set ic_types. \<not> ic_match ?p t)"
    for out
    by (simp add: voltages_setup_code EINVAL_def)
  have "fst (fan53555_probe T ord driver_data priv e) =
     (if ID1 < 0 then ID1
      else if ID2 < 0 then ID2
      else if fst (fan53555_voltages_setup ?p (console e2)) < 0 then - ENODATA else 0)"
    using assms
    by (simp add: fan53555_probe_def GENMASK_3_0 split_beta Let_def)
  then show ?thesis
    by (auto simp: c ENODATA_def)
qed

theorem probe_return_code_witness:
  "fst (fan53555_probe (regfile_transport 0x1c) right_to_left FAN53555_VENDOR_SILERGY priv0 (env0 rf_id)) = 0
   \<and> fst (fan53555_probe (regfile_transport 0x1c) right_to_left FAN53555_VENDOR_SILERGY priv0 (env0 [])) = - 121"
proof -
  let ?T = "regfile_transport 0x1c"
  let ?e1 = "\<lparr>bus = rf_id, trace = [PmicRead 0x03], console = []\<rparr>"
  let ?e2 = "\<lparr>bus = rf_id, trace = [PmicRead 0x03, PmicRead 0x04], console = []\<rparr>"
  let ?p = "priv0\<lparr>vendor := FAN53555_VENDOR_SILERGY, die_id := word_of_int 0x88 AND 0xF,
                   die_rev := word_of_int 0x01 AND 0xF\<rparr>"
  have a: "reg_read ?T FAN53555_ID1 (env0 rf_id) = (0x88, ?e1)"
    by (simp add: codec_defs rf_id_def FAN53555_ID1_def)
  have b: "reg_read ?T FAN53555_ID2 ?e1 = (0x01, ?e2)"
    by (simp add: codec_defs rf_id_def FAN53555_ID2_def)
  have m: "ic_match ?p (ic_types ! 10)" "ic_types ! 10 \<in> set ic_types"
    by (simp_all add: ic_types_def mk_ic_def ic_match_def priv0_def)
  then have n: "\<not> (\<forall>t \<in> set ic_types. \<not> ic_match ?p t)"
    by blast
  have a': "reg_read ?T FAN53555_ID1 (env0 []) =
      (- 121, \<lparr>bus = [], trace = [PmicRead 0x03], console = []\<rparr>)"
    by (simp add: codec_defs FAN53555_ID1_def)
  have b': "reg_read ?T FAN53555_ID2 \<lparr>bus = [], trace = [PmicRead 0x03], console = []\<rparr> =
      (- 121, \<lparr>bus = [], trace = [PmicRead 0x03, PmicRead 0x04], console = []\<rparr>)"
    by (simp add: codec_defs FAN53555_ID2_def)
  show ?thesis
    using probe_return_code [OF a b, where driver_data = FAN53555_VENDOR_SILERGY and priv = priv0
        and ord = right_to_left] n
      probe_return_code [OF a' b', where driver_data = FAN53555_VENDOR_SILERGY and priv = priv0
        and ord = right_to_left]
    by auto
qed

end
